theory Spec2Isabelle
  imports Main
begin

section \<open>The host object model\<close>

text \<open>
  The two modules \<^verbatim>\<open>xplane_anim_compat.py\<close> and \<^verbatim>\<open>xplane_anim_compat_bak.py\<close> only probe
  objects owned by the host application. The host is modelled as a heap of objects; every
  way in which the Python code touches an object is a primitive below, and every primitive
  that can raise in Python returns a sum whose left injection is the exception.

  Exceptions: all constructors stand for subclasses of Python's \<^verbatim>\<open>Exception\<close>, so that
  \<^verbatim>\<open>except Exception\<close> catches each of them; \<open>HostError\<close> stands for any exception of
  the host that is neither an attribute, a type, an index nor an import error.

  What the model takes for granted: truthiness and identity tests (\<^verbatim>\<open>is None\<close>) never
  raise; reading an attribute, iterating, indexing and resolving a slot with the get helper
  change nothing and give the same result when repeated on the same host; only
  \<^verbatim>\<open>new\<close>, \<^verbatim>\<open>remove\<close> and the ensure helper change the host.
\<close>

datatype exn = AttributeError | TypeError | IndexError | ImportError | HostError

type_synonym ref = nat

datatype val = VNone | VRef ref

text \<open>The call conventions of the host methods the code uses.\<close>

datatype meth = Get | New | NewKw | RemoveKw | RemovePos

text \<open>
  An object: its truth value, its attribute table (an attribute missing from the table
  raises \<open>AttributeError\<close>; a present one yields a value or raises what the table says),
  the elements an iteration produces and the exception that ends the iteration after them
  (if any), the objects it holds by name, and its methods (a method missing from the
  table raises \<open>AttributeError\<close>; a present one works, or raises what the table says).
\<close>

record obj =
  truthy :: bool
  attrs :: "(string \<times> (exn + val)) list"
  items :: "val list"
  iter_exn :: "exn option"
  keyed :: "(string \<times> ref) list"
  meths :: "(meth \<times> exn option) list"

text \<open>
  The host: the heap, whether \<^verbatim>\<open>bpy_extras.anim_utils\<close> can be imported and which of
  the two helpers it defines, whether the ensure helper accepts the keyword
  \<^verbatim>\<open>ensure\<close>, what resolving a slot of an action gives, and what a freshly created
  channel bag and group look like.
\<close>

record host =
  heap :: "(ref \<times> obj) list"
  has_anim_utils :: bool
  has_get_helper :: bool
  has_ensure_helper :: bool
  ensure_kw :: bool
  slot_bags :: "((val \<times> val) \<times> (exn + val)) list"
  new_bag :: obj
  new_group :: obj

text \<open>A plain object: truthy, without attributes, not iterable, without methods.\<close>

definition plain_obj :: obj where
  "plain_obj = \<lparr>truthy = True, attrs = [], items = [], iter_exn = Some TypeError,
     keyed = [], meths = []\<rparr>"

definition deref :: "host \<Rightarrow> ref \<Rightarrow> obj" where
  "deref h r = (case map_of (heap h) r of Some ob \<Rightarrow> ob | None \<Rightarrow> plain_obj)"

text \<open>\<^verbatim>\<open>bool(v)\<close>\<close>

fun is_true :: "host \<Rightarrow> val \<Rightarrow> bool" where
  "is_true h VNone = False"
| "is_true h (VRef r) = truthy (deref h r)"

text \<open>\<^verbatim>\<open>v.a\<close>\<close>

fun py_getattr :: "host \<Rightarrow> val \<Rightarrow> string \<Rightarrow> exn + val" where
  "py_getattr h VNone a = Inl AttributeError"
| "py_getattr h (VRef r) a =
     (case map_of (attrs (deref h r)) a of None \<Rightarrow> Inl AttributeError | Some x \<Rightarrow> x)"

text \<open>\<^verbatim>\<open>hasattr(v, a)\<close>: only \<open>AttributeError\<close> is turned into \<open>False\<close>.\<close>

definition py_hasattr :: "host \<Rightarrow> val \<Rightarrow> string \<Rightarrow> exn + bool" where
  "py_hasattr h v a =
     (case py_getattr h v a of
        Inr x \<Rightarrow> Inr True
      | Inl AttributeError \<Rightarrow> Inr False
      | Inl e \<Rightarrow> Inl e)"

text \<open>\<^verbatim>\<open>getattr(v, a, None)\<close>: only \<open>AttributeError\<close> is turned into the default.\<close>

definition py_getattr_default :: "host \<Rightarrow> val \<Rightarrow> string \<Rightarrow> exn + val" where
  "py_getattr_default h v a =
     (case py_getattr h v a of
        Inr x \<Rightarrow> Inr x
      | Inl AttributeError \<Rightarrow> Inr VNone
      | Inl e \<Rightarrow> Inl e)"

text \<open>
  \<^verbatim>\<open>for x in v\<close>: the elements produced, and the exception raised after them, if any.
  \<open>None\<close> is not iterable.
\<close>

fun iterate :: "host \<Rightarrow> val \<Rightarrow> val list \<times> exn option" where
  "iterate h VNone = ([], Some TypeError)"
| "iterate h (VRef r) = (items (deref h r), iter_exn (deref h r))"

text \<open>\<^verbatim>\<open>v[0]\<close>\<close>

fun index0 :: "host \<Rightarrow> val \<Rightarrow> exn + val" where
  "index0 h VNone = Inl TypeError"
| "index0 h (VRef r) =
     (case items (deref h r) of [] \<Rightarrow> Inl IndexError | x # xs \<Rightarrow> Inr x)"

text \<open>\<^verbatim>\<open>list(v)\<close>\<close>

definition list_of :: "host \<Rightarrow> val \<Rightarrow> exn + val list" where
  "list_of h v = (case iterate h v of (xs, None) \<Rightarrow> Inr xs | (xs, Some e) \<Rightarrow> Inl e)"

text \<open>Looking a method up on a value: \<open>None\<close> when it can be called.\<close>

fun meth_exn :: "host \<Rightarrow> val \<Rightarrow> meth \<Rightarrow> exn option" where
  "meth_exn h VNone m = Some AttributeError"
| "meth_exn h (VRef r) m =
     (case map_of (meths (deref h r)) m of None \<Rightarrow> Some AttributeError | Some x \<Rightarrow> x)"

text \<open>\<^verbatim>\<open>g.get(name)\<close>: the entry of that name, or \<open>None\<close>.\<close>

definition call_get :: "host \<Rightarrow> val \<Rightarrow> string \<Rightarrow> exn + val" where
  "call_get h g name =
     (case meth_exn h g Get of
        Some e \<Rightarrow> Inl e
      | None \<Rightarrow>
          (case g of
             VNone \<Rightarrow> Inl AttributeError
           | VRef r \<Rightarrow>
               (case map_of (keyed (deref h r)) name of
                  None \<Rightarrow> Inr VNone
                | Some n \<Rightarrow> Inr (VRef n))))"

text \<open>Allocation: a reference above every reference of the heap.\<close>

definition fresh :: "host \<Rightarrow> ref" where
  "fresh h = Suc (fold max (map fst (heap h)) 0)"

text \<open>
  \<^verbatim>\<open>g.new(name)\<close> and \<^verbatim>\<open>g.new(name=name)\<close>: the host allocates a group, enters it
  in the collection under the name and returns it; the collection, no longer empty, is
  truthy. A call that raises changes nothing.
\<close>

definition call_new :: "meth \<Rightarrow> host \<Rightarrow> val \<Rightarrow> string \<Rightarrow> (exn + val) \<times> host" where
  "call_new m h g name =
     (case meth_exn h g m of
        Some e \<Rightarrow> (Inl e, h)
      | None \<Rightarrow>
          (case g of
             VNone \<Rightarrow> (Inl AttributeError, h)
           | VRef r \<Rightarrow>
               (let n = fresh h;
                    ob = deref h r;
                    ob' = ob\<lparr>truthy := True, items := items ob @ [VRef n],
                             keyed := keyed ob @ [(name, n)]\<rparr>
                in (Inr (VRef n), h\<lparr>heap := (n, new_group h) # (r, ob') # heap h\<rparr>))))"

text \<open>
  \<^verbatim>\<open>c.remove(fcurve=fc)\<close> and \<^verbatim>\<open>c.remove(fc)\<close>: the host takes the curve out of
  the collection, which is truthy afterwards when elements remain. A call that raises
  changes nothing.
\<close>

definition call_remove :: "meth \<Rightarrow> host \<Rightarrow> val \<Rightarrow> val \<Rightarrow> (exn + unit) \<times> host" where
  "call_remove m h c fc =
     (case meth_exn h c m of
        Some e \<Rightarrow> (Inl e, h)
      | None \<Rightarrow>
          (case c of
             VNone \<Rightarrow> (Inl AttributeError, h)
           | VRef r \<Rightarrow>
               (let ob = deref h r;
                    ob' = ob\<lparr>truthy := (remove1 fc (items ob) \<noteq> []),
                             items := remove1 fc (items ob)\<rparr>
                in (Inr (), h\<lparr>heap := (r, ob') # heap h\<rparr>))))"

text \<open>\<^verbatim>\<open>from bpy_extras import anim_utils\<close>\<close>

definition import_anim_utils :: "host \<Rightarrow> exn + unit" where
  "import_anim_utils h = (if has_anim_utils h then Inr () else Inl ImportError)"

text \<open>\<^verbatim>\<open>anim_utils.action_get_channelbag_for_slot(action, slot)\<close>: reads only.\<close>

definition action_get_channelbag_for_slot :: "host \<Rightarrow> val \<Rightarrow> val \<Rightarrow> exn + val" where
  "action_get_channelbag_for_slot h action slot =
     (if \<not> has_get_helper h then Inl AttributeError
      else case map_of (slot_bags h) (action, slot) of None \<Rightarrow> Inr VNone | Some x \<Rightarrow> x)"

text \<open>\<^verbatim>\<open>from bpy_extras.anim_utils import action_ensure_channelbag_for_slot\<close>\<close>

definition import_ensure_helper :: "host \<Rightarrow> exn + unit" where
  "import_ensure_helper h =
     (if has_anim_utils h \<and> has_ensure_helper h then Inr () else Inl ImportError)"

text \<open>
  \<^verbatim>\<open>action_ensure_channelbag_for_slot(action, slot, ensure=ensure)\<close>: the bag of the
  slot; when there is none and \<open>ensure\<close> is set, the host allocates one and records it
  for the slot. A call that raises changes nothing.
\<close>

definition action_ensure_channelbag_for_slot ::
    "host \<Rightarrow> val \<Rightarrow> val \<Rightarrow> bool \<Rightarrow> (exn + val) \<times> host" where
  "action_ensure_channelbag_for_slot h action slot ensure =
     (if \<not> ensure_kw h then (Inl TypeError, h)
      else case map_of (slot_bags h) (action, slot) of
             Some (Inl e) \<Rightarrow> (Inl e, h)
           | Some (Inr (VRef b)) \<Rightarrow> (Inr (VRef b), h)
           | _ \<Rightarrow>
               (if ensure
                then (let n = fresh h
                      in (Inr (VRef n),
                          h\<lparr>heap := (n, new_bag h) # heap h,
                            slot_bags := ((action, slot), Inr (VRef n)) # slot_bags h\<rparr>))
                else (Inr VNone, h)))"

section \<open>The functions of \<^verbatim>\<open>xplane_anim_compat.py\<close>\<close>

text \<open>
  A function that may call \<^verbatim>\<open>new\<close>, \<^verbatim>\<open>remove\<close> or the ensure helper takes the host
  and returns it with its result; a function that only reads takes the host and returns
  its result. The result is a sum: \<open>Inl e\<close> when the exception \<open>e\<close> leaves the function.
\<close>

text \<open>\<^verbatim>\<open>get_action_channelbag(anim_data, ensure=False)\<close>, lines 23 to 42.\<close>

definition get_action_channelbag :: "host \<Rightarrow> val \<Rightarrow> bool \<Rightarrow> (exn + val) \<times> host" where
  "get_action_channelbag h anim_data ensure =
     (if \<not> is_true h anim_data then (Inr VNone, h)
      else case py_getattr h anim_data ''action'' of
             Inl e \<Rightarrow> (Inl e, h)
           | Inr action \<Rightarrow>
               if \<not> is_true h action then (Inr VNone, h)
               else (case py_hasattr h action ''groups'' of
                       Inl e \<Rightarrow> (Inl e, h)
                     | Inr has_groups \<Rightarrow>
                         if has_groups then (Inr action, h)
                         else (case import_ensure_helper h of
                                 Inl e \<Rightarrow> (Inr VNone, h)
                               | Inr u \<Rightarrow>
                                   (case py_getattr h anim_data ''action_slot'' of
                                      Inl e \<Rightarrow> (Inr VNone, h)
                                    | Inr slot \<Rightarrow>
                                        (case action_ensure_channelbag_for_slot h action slot ensure of
                                           (Inl e, h') \<Rightarrow> (Inr VNone, h')
                                         | (Inr cb, h') \<Rightarrow> (Inr cb, h'))))))"

text \<open>
  \<^verbatim>\<open>container.groups.get(group_name) or container.groups.new(group_name)\<close>, the
  expression of line 55 (and of line 65 of the other module); \<open>m\<close> is the convention of
  the call of \<^verbatim>\<open>new\<close>.
\<close>

definition get_or_new :: "meth \<Rightarrow> host \<Rightarrow> val \<Rightarrow> string \<Rightarrow> (exn + val) \<times> host" where
  "get_or_new m h container group_name =
     (case py_getattr h container ''groups'' of
        Inl e \<Rightarrow> (Inl e, h)
      | Inr groups \<Rightarrow>
          (case call_get h groups group_name of
             Inl e \<Rightarrow> (Inl e, h)
           | Inr found \<Rightarrow>
               if is_true h found then (Inr found, h)
               else (case py_getattr h container ''groups'' of
                       Inl e \<Rightarrow> (Inl e, h)
                     | Inr groups' \<Rightarrow> call_new m h groups' group_name)))"

text \<open>\<^verbatim>\<open>ensure_action_group(anim_data, group_name)\<close>, lines 45 to 59.\<close>

definition ensure_action_group :: "host \<Rightarrow> val \<Rightarrow> string \<Rightarrow> (exn + val) \<times> host" where
  "ensure_action_group h anim_data group_name =
     (if \<not> is_true h anim_data then (Inr VNone, h)
      else case py_getattr h anim_data ''action'' of
             Inl e \<Rightarrow> (Inl e, h)
           | Inr action \<Rightarrow>
               if \<not> is_true h action then (Inr VNone, h)
               else (case get_action_channelbag h anim_data True of
                       (Inl e, h') \<Rightarrow> (Inl e, h')
                     | (Inr container, h') \<Rightarrow>
                         if \<not> is_true h' container then (Inr VNone, h')
                         else (case py_hasattr h' container ''groups'' of
                                 Inl e \<Rightarrow> (Inl e, h')
                               | Inr has_groups \<Rightarrow>
                                   if has_groups then get_or_new New h' container group_name
                                   else (Inr VNone, h'))))"

text \<open>
  A generator is the list of what it yields, with the exception that ends it (\<open>None\<close>
  when it returns). The consumer is taken to run it to its end, and the host not to change
  while it runs.
\<close>

type_synonym gen = "val list \<times> exn option"

definition gen_prepend :: "val list \<Rightarrow> gen \<Rightarrow> gen" where
  "gen_prepend xs g = (xs @ fst g, snd g)"

text \<open>The body of a loop run on each element in turn, until one run raises.\<close>

fun gen_each :: "(val \<Rightarrow> gen) \<Rightarrow> val list \<Rightarrow> gen" where
  "gen_each body [] = ([], None)"
| "gen_each body (x # xs) =
     (case body x of
        (ys, Some e) \<Rightarrow> (ys, Some e)
      | (ys, None) \<Rightarrow> gen_prepend ys (gen_each body xs))"

text \<open>
  \<^verbatim>\<open>for x in coll: body\<close>: the body runs on the elements the iteration produces; the
  exception that ends the iteration, if any, is raised after them.
\<close>

definition gen_for :: "host \<Rightarrow> val \<Rightarrow> (val \<Rightarrow> gen) \<Rightarrow> gen" where
  "gen_for h coll body =
     (case gen_each body (fst (iterate h coll)) of
        (ys, Some e) \<Rightarrow> (ys, Some e)
      | (ys, None) \<Rightarrow> (ys, snd (iterate h coll)))"

text \<open>
  One level of the nested loops of lines 84 to 101:
  \<^verbatim>\<open>c = getattr(x, a, None)\<close>, then nothing when \<^verbatim>\<open>not c\<close>, else the loop over \<open>c\<close>.
\<close>

definition gen_level :: "host \<Rightarrow> val \<Rightarrow> string \<Rightarrow> (val \<Rightarrow> gen) \<Rightarrow> gen" where
  "gen_level h x a body =
     (case py_getattr_default h x a of
        Inl e \<Rightarrow> ([], Some e)
      | Inr c \<Rightarrow> if \<not> is_true h c then ([], None) else gen_for h c body)"

text \<open>Lines 84 to 101 (lines 105 to 122 of the other module).\<close>

definition layered_fcurves :: "host \<Rightarrow> val \<Rightarrow> gen" where
  "layered_fcurves h action =
     gen_level h action ''layers'' (\<lambda>layer.
       gen_level h layer ''strips'' (\<lambda>strip.
         gen_level h strip ''channelbags'' (\<lambda>cb.
           gen_level h cb ''fcurves'' (\<lambda>fc. ([fc], None)))))"

text \<open>\<^verbatim>\<open>iter_action_fcurves(action)\<close>, lines 62 to 101.\<close>

definition iter_action_fcurves :: "host \<Rightarrow> val \<Rightarrow> gen" where
  "iter_action_fcurves h action =
     (if action = VNone then ([], None)
      else case py_hasattr h action ''fcurves'' of
             Inl e \<Rightarrow> ([], Some e)
           | Inr has_fcurves \<Rightarrow>
               if has_fcurves
               then (case py_getattr h action ''fcurves'' of
                       Inl e \<Rightarrow> layered_fcurves h action
                     | Inr fcurves \<Rightarrow>
                         (case iterate h fcurves of
                            (xs, None) \<Rightarrow> (xs, None)
                          | (xs, Some e) \<Rightarrow> gen_prepend xs (layered_fcurves h action)))
               else layered_fcurves h action)"

text \<open>\<^verbatim>\<open>get_channelbag_for_anim_data(anim_data)\<close>, lines 104 to 129; it only reads.\<close>

definition get_channelbag_for_anim_data :: "host \<Rightarrow> val \<Rightarrow> exn + val" where
  "get_channelbag_for_anim_data h anim_data =
     (if anim_data = VNone then Inr VNone
      else case py_getattr_default h anim_data ''action'' of
             Inl e \<Rightarrow> Inl e
           | Inr action \<Rightarrow>
               if action = VNone then Inr VNone
               else (case import_anim_utils h of
                       Inl e \<Rightarrow> Inr VNone
                     | Inr u \<Rightarrow>
                         (case py_getattr_default h anim_data ''action_slot'' of
                            Inl e \<Rightarrow> Inl e
                          | Inr slot \<Rightarrow>
                              if slot = VNone then Inr VNone
                              else (case action_get_channelbag_for_slot h action slot of
                                      Inl e \<Rightarrow> Inr VNone
                                    | Inr cb \<Rightarrow> Inr cb))))"

text \<open>
  The \<^verbatim>\<open>try\<close> block of lines 140 to 151: \<open>Inr (Some xs)\<close> when it returns the list
  \<open>xs\<close>, \<open>Inr None\<close> when it ends without returning, \<open>Inl e\<close> when it raises.
\<close>

definition slot_fcurves :: "host \<Rightarrow> val \<Rightarrow> val \<Rightarrow> exn + val list option" where
  "slot_fcurves h anim_data action =
     (case import_anim_utils h of
        Inl e \<Rightarrow> Inl e
      | Inr u \<Rightarrow>
          (case py_getattr_default h anim_data ''action_slot'' of
             Inl e \<Rightarrow> Inl e
           | Inr slot0 \<Rightarrow>
               (case (if slot0 = VNone
                      then (case py_hasattr h action ''slots'' of
                              Inl e \<Rightarrow> Inl e
                            | Inr has_slots \<Rightarrow>
                                if has_slots
                                then (case py_getattr h action ''slots'' of
                                        Inl e \<Rightarrow> Inl e
                                      | Inr slots \<Rightarrow>
                                          if is_true h slots then index0 h slots else Inr slot0)
                                else Inr slot0)
                      else Inr slot0) of
                  Inl e \<Rightarrow> Inl e
                | Inr slot \<Rightarrow>
                    if slot = VNone then Inr None
                    else (case action_get_channelbag_for_slot h action slot of
                            Inl e \<Rightarrow> Inl e
                          | Inr cb \<Rightarrow>
                              if cb = VNone then Inr None
                              else (case py_getattr h cb ''fcurves'' of
                                      Inl e \<Rightarrow> Inl e
                                    | Inr fcurves \<Rightarrow>
                                        (case list_of h fcurves of
                                           Inl e \<Rightarrow> Inl e
                                         | Inr xs \<Rightarrow> Inr (Some xs)))))))"

text \<open>\<^verbatim>\<open>get_fcurves_for_anim_data(anim_data)\<close>, lines 132 to 159; it only reads.\<close>

definition get_fcurves_for_anim_data :: "host \<Rightarrow> val \<Rightarrow> exn + val list" where
  "get_fcurves_for_anim_data h anim_data =
     (if \<not> is_true h anim_data then Inr []
      else case py_getattr h anim_data ''action'' of
             Inl e \<Rightarrow> Inl e
           | Inr action \<Rightarrow>
               if \<not> is_true h action then Inr []
               else (case slot_fcurves h anim_data action of
                       Inr (Some xs) \<Rightarrow> Inr xs
                     | _ \<Rightarrow>
                         (case py_hasattr h action ''fcurves'' of
                            Inl e \<Rightarrow> Inl e
                          | Inr has_fcurves \<Rightarrow>
                              if has_fcurves
                              then (case py_getattr h action ''fcurves'' of
                                      Inl e \<Rightarrow> Inl e
                                    | Inr fcurves \<Rightarrow> list_of h fcurves)
                              else Inr [])))"

text \<open>\<^verbatim>\<open>remove_fcurve_from_collection(fcurves, fcurve)\<close>, lines 163 to 181.\<close>

definition remove_fcurve_from_collection :: "host \<Rightarrow> val \<Rightarrow> val \<Rightarrow> (exn + bool) \<times> host" where
  "remove_fcurve_from_collection h fcurves fcurve =
     (if fcurves = VNone \<or> fcurve = VNone then (Inr False, h)
      else case call_remove RemoveKw h fcurves fcurve of
             (Inr u, h') \<Rightarrow> (Inr True, h')
           | (Inl e, h') \<Rightarrow>
               if e = TypeError
               then (case call_remove RemovePos h' fcurves fcurve of
                       (Inr u, h'') \<Rightarrow> (Inr True, h'')
                     | (Inl e', h'') \<Rightarrow> (Inr False, h''))
               else (Inr False, h'))"

section \<open>The functions of \<^verbatim>\<open>xplane_anim_compat_bak.py\<close>\<close>

text \<open>
  \<^verbatim>\<open>get_channelbag_for_anim_data\<close>, \<^verbatim>\<open>get_fcurves_for_anim_data\<close> and
  \<^verbatim>\<open>remove_fcurve_from_collection\<close> are the same text in both modules; the three
  functions below differ.
\<close>

text \<open>
  The inner \<^verbatim>\<open>try\<close> of lines 38 to 42: the ensure helper, and the get helper when
  importing or calling the ensure helper raises.
\<close>

definition ensure_or_get_bak :: "host \<Rightarrow> val \<Rightarrow> val \<Rightarrow> bool \<Rightarrow> (exn + val) \<times> host" where
  "ensure_or_get_bak h action slot ensure =
     (case import_ensure_helper h of
        Inl e \<Rightarrow> (action_get_channelbag_for_slot h action slot, h)
      | Inr u \<Rightarrow>
          (case action_ensure_channelbag_for_slot h action slot ensure of
             (Inr cb, h') \<Rightarrow> (Inr cb, h')
           | (Inl e, h') \<Rightarrow> (action_get_channelbag_for_slot h' action slot, h')))"

text \<open>
  Lines 32 to 34: the active slot, or the first slot of the action when none is active
  and \<^verbatim>\<open>getattr(action, "slots", None)\<close> is truthy.
\<close>

definition pick_slot_bak :: "host \<Rightarrow> val \<Rightarrow> val \<Rightarrow> exn + val" where
  "pick_slot_bak h anim_data action =
     (case py_getattr_default h anim_data ''action_slot'' of
        Inl e \<Rightarrow> Inl e
      | Inr slot \<Rightarrow>
          if slot = VNone
          then (case py_getattr_default h action ''slots'' of
                  Inl e \<Rightarrow> Inl e
                | Inr slots \<Rightarrow>
                    if is_true h slots
                    then (case py_getattr h action ''slots'' of
                            Inl e \<Rightarrow> Inl e
                          | Inr slots' \<Rightarrow> index0 h slots')
                    else Inr slot)
          else Inr slot)"

text \<open>
  The outer \<^verbatim>\<open>try\<close> block of lines 30 to 42: \<open>Inr (Some v)\<close> when it returns \<open>v\<close>,
  \<open>Inr None\<close> when it ends without returning, \<open>Inl e\<close> when it raises.
\<close>

definition slot_channelbag_bak ::
    "host \<Rightarrow> val \<Rightarrow> val \<Rightarrow> bool \<Rightarrow> (exn + val option) \<times> host" where
  "slot_channelbag_bak h anim_data action ensure =
     (case import_anim_utils h of
        Inl e \<Rightarrow> (Inl e, h)
      | Inr u \<Rightarrow>
          (case pick_slot_bak h anim_data action of
             Inl e \<Rightarrow> (Inl e, h)
           | Inr slot \<Rightarrow>
               if slot = VNone then (Inr None, h)
               else (case ensure_or_get_bak h action slot ensure of
                       (Inl e, h') \<Rightarrow> (Inl e, h')
                     | (Inr cb, h') \<Rightarrow> (Inr (Some cb), h'))))"

text \<open>\<^verbatim>\<open>get_action_channelbag(anim_data, ensure=False)\<close>, lines 23 to 50.\<close>

definition get_action_channelbag_bak :: "host \<Rightarrow> val \<Rightarrow> bool \<Rightarrow> (exn + val) \<times> host" where
  "get_action_channelbag_bak h anim_data ensure =
     (if \<not> is_true h anim_data then (Inr VNone, h)
      else case py_getattr h anim_data ''action'' of
             Inl e \<Rightarrow> (Inl e, h)
           | Inr action \<Rightarrow>
               if \<not> is_true h action then (Inr VNone, h)
               else (case slot_channelbag_bak h anim_data action ensure of
                       (Inr (Some cb), h') \<Rightarrow> (Inr cb, h')
                     | (_, h') \<Rightarrow>
                         (case py_hasattr h' action ''groups'' of
                            Inl e \<Rightarrow> (Inl e, h')
                          | Inr has_groups \<Rightarrow>
                              if has_groups then (Inr action, h') else (Inr VNone, h'))))"

text \<open>\<^verbatim>\<open>ensure_action_group(anim_data, group_name)\<close>, lines 55 to 68.\<close>

definition ensure_action_group_bak :: "host \<Rightarrow> val \<Rightarrow> string \<Rightarrow> (exn + val) \<times> host" where
  "ensure_action_group_bak h anim_data group_name =
     (if \<not> is_true h anim_data then (Inr VNone, h)
      else case py_getattr h anim_data ''action'' of
             Inl e \<Rightarrow> (Inl e, h)
           | Inr action \<Rightarrow>
               if \<not> is_true h action then (Inr VNone, h)
               else (case get_action_channelbag_bak h anim_data True of
                       (Inl e, h') \<Rightarrow> (Inl e, h')
                     | (Inr container, h') \<Rightarrow>
                         if \<not> is_true h' container then (Inr VNone, h')
                         else (case py_hasattr h' container ''groups'' of
                                 Inl e \<Rightarrow> (Inl e, h')
                               | Inr has_groups \<Rightarrow>
                                   if has_groups then get_or_new New h' container group_name
                                   else get_or_new NewKw h' container group_name)))"

text \<open>
  The body of the loop of lines 85 to 89, for one slot:
  \<^verbatim>\<open>cb = anim_utils.action_get_channelbag_for_slot(action, slot)\<close>, then the curves of
  \<^verbatim>\<open>cb.fcurves\<close> when \<^verbatim>\<open>cb and getattr(cb, "fcurves", None)\<close>.
\<close>

definition slot_body_bak :: "host \<Rightarrow> val \<Rightarrow> val \<Rightarrow> gen" where
  "slot_body_bak h action slot =
     (case action_get_channelbag_for_slot h action slot of
        Inl e \<Rightarrow> ([], Some e)
      | Inr cb \<Rightarrow>
          if \<not> is_true h cb then ([], None)
          else (case py_getattr_default h cb ''fcurves'' of
                  Inl e \<Rightarrow> ([], Some e)
                | Inr probe \<Rightarrow>
                    if \<not> is_true h probe then ([], None)
                    else (case py_getattr h cb ''fcurves'' of
                            Inl e \<Rightarrow> ([], Some e)
                          | Inr fcurves \<Rightarrow> gen_for h fcurves (\<lambda>fc. ([fc], None)))))"

text \<open>
  The \<^verbatim>\<open>try\<close> block of lines 81 to 90: \<open>None\<close> when it ends without returning
  (no truthy \<^verbatim>\<open>slots\<close>), else what it yields, with \<open>None\<close> when it reaches its
  \<^verbatim>\<open>return\<close> and the exception when it raises.
\<close>

definition slotted_fcurves_bak :: "host \<Rightarrow> val \<Rightarrow> gen option" where
  "slotted_fcurves_bak h action =
     (case import_anim_utils h of
        Inl e \<Rightarrow> Some ([], Some e)
      | Inr u \<Rightarrow>
          (case py_getattr_default h action ''slots'' of
             Inl e \<Rightarrow> Some ([], Some e)
           | Inr slots \<Rightarrow>
               if is_true h slots then Some (gen_for h slots (slot_body_bak h action))
               else None))"

text \<open>Lines 95 to 122: the legacy collection, then the layers.\<close>

definition legacy_fcurves_bak :: "host \<Rightarrow> val \<Rightarrow> gen" where
  "legacy_fcurves_bak h action =
     (case py_hasattr h action ''fcurves'' of
        Inl e \<Rightarrow> ([], Some e)
      | Inr has_fcurves \<Rightarrow>
          if has_fcurves
          then (case py_getattr h action ''fcurves'' of
                  Inl e \<Rightarrow> layered_fcurves h action
                | Inr fcurves \<Rightarrow>
                    if is_true h fcurves
                    then (case py_getattr h action ''fcurves'' of
                            Inl e \<Rightarrow> layered_fcurves h action
                          | Inr fcurves' \<Rightarrow>
                              (case iterate h fcurves' of
                                 (xs, None) \<Rightarrow> (xs, None)
                               | (xs, Some e) \<Rightarrow> gen_prepend xs (layered_fcurves h action)))
                    else ([], None))
          else layered_fcurves h action)"

text \<open>\<^verbatim>\<open>iter_action_fcurves(action)\<close>, lines 71 to 122.\<close>

definition iter_action_fcurves_bak :: "host \<Rightarrow> val \<Rightarrow> gen" where
  "iter_action_fcurves_bak h action =
     (if action = VNone then ([], None)
      else case slotted_fcurves_bak h action of
             Some (ys, None) \<Rightarrow> (ys, None)
           | Some (ys, Some e) \<Rightarrow> gen_prepend ys (legacy_fcurves_bak h action)
           | None \<Rightarrow> legacy_fcurves_bak h action)"

section \<open>What the specification says, and hosts that behave\<close>

text \<open>
  The elements of the collection held by attribute \<open>a\<close> of \<open>x\<close>, in their native
  order; an absent or empty collection has none.
\<close>

definition elems :: "host \<Rightarrow> val \<Rightarrow> string \<Rightarrow> val list" where
  "elems h x a =
     (case py_getattr h x a of
        Inr c \<Rightarrow> if is_true h c then fst (iterate h c) else []
      | Inl e \<Rightarrow> [])"

definition exposes :: "host \<Rightarrow> val \<Rightarrow> string \<Rightarrow> bool" where
  "exposes h x a = (case py_getattr h x a of Inr c \<Rightarrow> True | Inl e \<Rightarrow> False)"

text \<open>The host exposes the per-slot resolution helper.\<close>

definition helper_exposed :: "host \<Rightarrow> bool" where
  "helper_exposed h = (has_anim_utils h \<and> has_get_helper h)"

text \<open>The layered shape: layer, then strip, then channel bag, then curve, depth first.\<close>

definition layered_curves :: "host \<Rightarrow> val \<Rightarrow> val list" where
  "layered_curves h action =
     concat (map (\<lambda>layer.
       concat (map (\<lambda>strip.
         concat (map (\<lambda>cb. elems h cb ''fcurves'')
           (elems h strip ''channelbags'')))
         (elems h layer ''strips'')))
       (elems h action ''layers''))"

text \<open>The slotted shape: for each slot in native order, the curves of its resolved bag.\<close>

definition slotted_curves :: "host \<Rightarrow> val \<Rightarrow> val list" where
  "slotted_curves h action =
     concat (map (\<lambda>slot.
       case action_get_channelbag_for_slot h action slot of
         Inr cb \<Rightarrow> elems h cb ''fcurves''
       | Inl e \<Rightarrow> [])
       (elems h action ''slots''))"

text \<open>
  The enumeration order of \<^verbatim>\<open>iterate_curves\<close> as the specification words it: the
  slotted shape when the host exposes the helper and the action has slots, else the
  legacy flat collection when the action exposes it, else the layered shape.
\<close>

definition iterate_curves_spec :: "host \<Rightarrow> val \<Rightarrow> val list" where
  "iterate_curves_spec h action =
     (if action = VNone then []
      else if helper_exposed h \<and> elems h action ''slots'' \<noteq> [] then slotted_curves h action
      else if exposes h action ''fcurves'' then elems h action ''fcurves''
      else layered_curves h action)"

text \<open>
  What \<^verbatim>\<open>iter_action_fcurves\<close> of \<^verbatim>\<open>xplane_anim_compat.py\<close> enumerates: the
  legacy flat collection when the action exposes it, else the layered shape.
\<close>

definition legacy_or_layered_curves :: "host \<Rightarrow> val \<Rightarrow> val list" where
  "legacy_or_layered_curves h action =
     (if action = VNone then []
      else if exposes h action ''fcurves'' then elems h action ''fcurves''
      else layered_curves h action)"

text \<open>
  A host that behaves. A collection is iterable without an exception and is falsy exactly
  when it is empty; the attributes that hold collections, when present, hold one; reading
  an attribute raises nothing but \<open>AttributeError\<close>; resolving a slot raises nothing and
  gives \<open>None\<close> or a truthy bag.
\<close>

definition coll_attrs :: "string list" where
  "coll_attrs = [''slots'', ''fcurves'', ''layers'', ''strips'', ''channelbags'']"

definition good_coll :: "host \<Rightarrow> val \<Rightarrow> bool" where
  "good_coll h v =
     (case v of
        VNone \<Rightarrow> False
      | VRef r \<Rightarrow> iter_exn (deref h r) = None
                  \<and> (truthy (deref h r) \<longleftrightarrow> items (deref h r) \<noteq> []))"

definition good_attr :: "host \<Rightarrow> string \<times> (exn + val) \<Rightarrow> bool" where
  "good_attr h ax =
     (case snd ax of
        Inl e \<Rightarrow> e = AttributeError
      | Inr v \<Rightarrow> fst ax \<in> set coll_attrs \<longrightarrow> good_coll h v)"

definition good_bag :: "host \<Rightarrow> (val \<times> val) \<times> (exn + val) \<Rightarrow> bool" where
  "good_bag h kx = (case snd kx of Inl e \<Rightarrow> False | Inr cb \<Rightarrow> cb = VNone \<or> is_true h cb)"

definition well_behaved :: "host \<Rightarrow> bool" where
  "well_behaved h =
     (list_all (\<lambda>rob. list_all (good_attr h) (attrs (snd rob))) (heap h)
      \<and> list_all (good_bag h) (slot_bags h))"

section \<open>Example hosts\<close>

text \<open>An object with the given attributes, and a collection of the given elements.\<close>

definition struct_obj :: "(string \<times> val) list \<Rightarrow> obj" where
  "struct_obj avs = plain_obj\<lparr>attrs := map (\<lambda>av. (fst av, Inr (snd av))) avs\<rparr>"

definition coll_obj :: "val list \<Rightarrow> obj" where
  "coll_obj xs = \<lparr>truthy = (xs \<noteq> []), attrs = [], items = xs, iter_exn = None, keyed = [],
     meths = [(Get, None), (New, None), (NewKw, None), (RemoveKw, None), (RemovePos, None)]\<rparr>"

definition host_of :: "(ref \<times> obj) list \<Rightarrow> bool \<Rightarrow> ((val \<times> val) \<times> (exn + val)) list \<Rightarrow> host" where
  "host_of hp helpers bags =
     \<lparr>heap = hp, has_anim_utils = helpers, has_get_helper = helpers,
      has_ensure_helper = helpers, ensure_kw = helpers, slot_bags = bags,
      new_bag = struct_obj [], new_group = struct_obj []\<rparr>"

text \<open>
  A legacy host: the animation data 1 has the action 2, which exposes the flat collection
  3 of the curves 10 and 11 and the empty group collection 4.
\<close>

definition legacy_host :: host where
  "legacy_host = host_of
     [(1, struct_obj [(''action'', VRef 2)]),
      (2, struct_obj [(''fcurves'', VRef 3), (''groups'', VRef 4)]),
      (3, coll_obj [VRef 10, VRef 11]),
      (4, coll_obj []),
      (10, plain_obj), (11, plain_obj)]
     False []"

text \<open>
  A slotted host: the animation data 1 has the action 2 and the active slot 5; the action
  has the slots 5 and the layer 8 with the strip 12, whose bag 14 (the bag of slot 5)
  holds the curve 20.
\<close>

definition slotted_host :: host where
  "slotted_host = host_of
     [(1, struct_obj [(''action'', VRef 2), (''action_slot'', VRef 5)]),
      (2, struct_obj [(''slots'', VRef 6), (''layers'', VRef 7)]),
      (5, plain_obj),
      (6, coll_obj [VRef 5]),
      (7, coll_obj [VRef 8]),
      (8, struct_obj [(''strips'', VRef 9)]),
      (9, coll_obj [VRef 12]),
      (12, struct_obj [(''channelbags'', VRef 13)]),
      (13, coll_obj [VRef 14]),
      (14, struct_obj [(''fcurves'', VRef 15)]),
      (15, coll_obj [VRef 20]),
      (20, plain_obj)]
     True [((VRef 2, VRef 5), Inr (VRef 14))]"

text \<open>
  A layered host without helper: the action 2 has two layers, each with one strip, each
  with one bag, holding the curves 24 and 25; the second layer also has a strip without
  bags.
\<close>

definition layered_host :: host where
  "layered_host = host_of
     [(1, struct_obj [(''action'', VRef 2)]),
      (2, struct_obj [(''layers'', VRef 3)]),
      (3, coll_obj [VRef 4, VRef 5]),
      (4, struct_obj [(''strips'', VRef 6)]),
      (5, struct_obj [(''strips'', VRef 7)]),
      (6, coll_obj [VRef 8]),
      (7, coll_obj [VRef 9, VRef 16]),
      (8, struct_obj [(''channelbags'', VRef 10)]),
      (9, struct_obj [(''channelbags'', VRef 11)]),
      (16, struct_obj [(''channelbags'', VRef 17)]),
      (17, coll_obj []),
      (10, coll_obj [VRef 12]),
      (11, coll_obj [VRef 13]),
      (12, struct_obj [(''fcurves'', VRef 14)]),
      (13, struct_obj [(''fcurves'', VRef 15)]),
      (14, coll_obj [VRef 24]),
      (15, coll_obj [VRef 25]),
      (24, plain_obj), (25, plain_obj)]
     False []"

text \<open>
  A host where an action has the legacy attributes and slots at once: the action 2 exposes
  the flat collection 3, which holds the curve 20 of its first slot only, the group
  collection 4, and the slots 5 and 6, whose bags 14 and 16 hold the curves 20 and 21.
  The active slot of the animation data 1 is 5.
\<close>

definition proxy_host :: host where
  "proxy_host = host_of
     [(1, struct_obj [(''action'', VRef 2), (''action_slot'', VRef 5)]),
      (2, struct_obj [(''fcurves'', VRef 3), (''groups'', VRef 4), (''slots'', VRef 7)]),
      (3, coll_obj [VRef 20]),
      (4, coll_obj []),
      (5, plain_obj), (6, plain_obj),
      (7, coll_obj [VRef 5, VRef 6]),
      (14, struct_obj [(''fcurves'', VRef 15)]),
      (15, coll_obj [VRef 20]),
      (16, struct_obj [(''fcurves'', VRef 17)]),
      (17, coll_obj [VRef 21]),
      (20, plain_obj), (21, plain_obj)]
     True [((VRef 2, VRef 5), Inr (VRef 14)), ((VRef 2, VRef 6), Inr (VRef 16))]"

text \<open>
  A slotted host where no slot is active: the animation data 1 has the action 2 and the
  active slot \<open>None\<close>; the only slot 5 of the action has the bag 14.
\<close>

definition unassigned_host :: host where
  "unassigned_host = host_of
     [(1, struct_obj [(''action'', VRef 2), (''action_slot'', VNone)]),
      (2, struct_obj [(''slots'', VRef 6)]),
      (5, plain_obj),
      (6, coll_obj [VRef 5]),
      (14, struct_obj [(''fcurves'', VRef 15)]),
      (15, coll_obj [VRef 20]),
      (20, plain_obj)]
     True [((VRef 2, VRef 5), Inr (VRef 14))]"

text \<open>
  A host that fails: resolving the second slot 6 of the action 2 raises, the iteration of
  the flat collection 3 raises after the curve 10, and the layer 8 leads to the curve 24.
\<close>

definition failing_host :: host where
  "failing_host = host_of
     [(2, struct_obj [(''slots'', VRef 7), (''fcurves'', VRef 3), (''layers'', VRef 30)]),
      (3, (coll_obj [VRef 10])\<lparr>iter_exn := Some HostError\<rparr>),
      (5, plain_obj), (6, plain_obj),
      (7, coll_obj [VRef 5, VRef 6]),
      (14, struct_obj [(''fcurves'', VRef 15)]),
      (15, coll_obj [VRef 20]),
      (30, coll_obj [VRef 8]),
      (8, struct_obj [(''strips'', VRef 9)]),
      (9, coll_obj [VRef 12]),
      (12, struct_obj [(''channelbags'', VRef 13)]),
      (13, coll_obj [VRef 16]),
      (16, struct_obj [(''fcurves'', VRef 17)]),
      (17, coll_obj [VRef 24]),
      (10, plain_obj), (20, plain_obj), (24, plain_obj)]
     True [((VRef 2, VRef 5), Inr (VRef 14)), ((VRef 2, VRef 6), Inl HostError)]"

text \<open>
  A legacy host whose group collection 4 refuses to create a group, and whose layer
  collection 5 cannot be iterated.
\<close>

definition locked_host :: host where
  "locked_host = host_of
     [(1, struct_obj [(''action'', VRef 2)]),
      (2, struct_obj [(''groups'', VRef 4)]),
      (4, (coll_obj [])\<lparr>meths := [(Get, None), (New, Some HostError)]\<rparr>),
      (3, struct_obj [(''layers'', VRef 5)]),
      (5, (coll_obj [VRef 6])\<lparr>iter_exn := Some HostError\<rparr>),
      (6, plain_obj)]
     False []"

text \<open>An animation data 1 whose action is \<open>None\<close>.\<close>

definition idle_host :: host where
  "idle_host = host_of [(1, struct_obj [(''action'', VNone)])] True []"

text \<open>
  Collections whose \<^verbatim>\<open>remove\<close> behaves in each way: 30 takes the keyword, 31 only
  the positional argument (the keyword call is a parameter mismatch), 32 fails inside the
  host on the keyword call, 33 rejects both conventions; 40 is the curve.
\<close>

definition remove_host :: host where
  "remove_host = host_of
     [(30, coll_obj [VRef 40]),
      (31, (coll_obj [VRef 40])\<lparr>meths := [(RemoveKw, Some TypeError), (RemovePos, None)]\<rparr>),
      (32, (coll_obj [VRef 40])\<lparr>meths := [(RemoveKw, Some HostError), (RemovePos, None)]\<rparr>),
      (33, (coll_obj [VRef 40])\<lparr>meths := [(RemoveKw, Some TypeError),
                                             (RemovePos, Some TypeError)]\<rparr>),
      (40, plain_obj)]
     False []"

text \<open>
  A host where reading the action of the animation data 1 raises inside the host (the
  data behind the reference is gone).
\<close>

definition stale_host :: host where
  "stale_host = host_of
     [(1, plain_obj\<lparr>attrs := [(''action'', Inl HostError)]\<rparr>)]
     True []"

text \<open>
  A slotted host where the active slot 5 of the animation data 1 has no channel bag yet.
\<close>

definition bagless_host :: host where
  "bagless_host = host_of
     [(1, struct_obj [(''action'', VRef 2), (''action_slot'', VRef 5)]),
      (2, struct_obj [(''slots'', VRef 6)]),
      (5, plain_obj),
      (6, coll_obj [VRef 5])]
     True []"

section \<open>Facts about the primitives\<close>

lemma hasattr_False_getattr:
  "py_hasattr h v a = Inr False \<Longrightarrow> py_getattr h v a = Inl AttributeError"
  by (auto simp: py_hasattr_def split: sum.splits exn.splits)

lemma hasattr_True_getattr:
  "py_hasattr h v a = Inr True \<Longrightarrow> \<exists>x. py_getattr h v a = Inr x"
  by (auto simp: py_hasattr_def split: sum.splits exn.splits)

lemma call_remove_result:
  "fst (call_remove m h c fc) = (case meth_exn h c m of Some e \<Rightarrow> Inl e | None \<Rightarrow> Inr ())"
  by (cases c) (auto simp: call_remove_def Let_def split: option.splits)

lemma call_remove_raises:
  "meth_exn h c m = Some e \<Longrightarrow> call_remove m h c fc = (Inl e, h)"
  by (simp add: call_remove_def)

section \<open>Resolving the channel bag and the group\<close>

lemma get_action_channelbag_truthy:
  assumes "get_action_channelbag h anim_data ensure = (Inr cb, h')" and "cb \<noteq> VNone"
  shows "is_true h anim_data \<and> (\<exists>a. py_getattr h anim_data ''action'' = Inr a \<and> is_true h a)"
  using assms
  by (auto simp: get_action_channelbag_def split: if_splits sum.splits prod.splits)

lemma get_action_channelbag_bak_truthy:
  assumes "get_action_channelbag_bak h anim_data ensure = (Inr cb, h')" and "cb \<noteq> VNone"
  shows "is_true h anim_data \<and> (\<exists>a. py_getattr h anim_data ''action'' = Inr a \<and> is_true h a)"
  using assms
  by (auto simp: get_action_channelbag_bak_def
      split: if_splits sum.splits prod.splits option.splits)

text \<open>
  In \<^verbatim>\<open>xplane_anim_compat.py\<close>, a container without \<^verbatim>\<open>groups\<close> makes
  \<^verbatim>\<open>ensure_action_group\<close> return \<open>None\<close>: no group is created, nothing is raised.
\<close>

lemma ensure_action_group_modern:
  assumes "get_action_channelbag h anim_data True = (Inr cb, h')"
    and "is_true h' cb" and "py_hasattr h' cb ''groups'' = Inr False"
  shows "ensure_action_group h anim_data group_name = (Inr VNone, h')"
proof -
  from assms(2) have "cb \<noteq> VNone" by auto
  from get_action_channelbag_truthy [OF assms(1) this] assms
  show ?thesis by (auto simp: ensure_action_group_def)
qed

text \<open>
  C7. \<^verbatim>\<open>ensure_action_group\<close> is to return \<open>None\<close> when the resolved container is a
  channel bag without a group collection. In \<^verbatim>\<open>xplane_anim_compat_bak.py\<close> it does not:
  line 68 reads \<^verbatim>\<open>container.groups\<close> right after \<^verbatim>\<open>hasattr(container, "groups")\<close>
  was false, so on every truthy container without \<^verbatim>\<open>groups\<close> the function raises
  \<open>AttributeError\<close>.
\<close>

theorem ensure_action_group_bak_modern_raises:
  assumes "get_action_channelbag_bak h anim_data True = (Inr cb, h')"
    and "is_true h' cb" and "py_hasattr h' cb ''groups'' = Inr False"
  shows "ensure_action_group_bak h anim_data group_name = (Inl AttributeError, h')"
proof -
  from assms(2) have "cb \<noteq> VNone" by auto
  from get_action_channelbag_bak_truthy [OF assms(1) this] assms
    hasattr_False_getattr [OF assms(3)]
  show ?thesis by (auto simp: ensure_action_group_bak_def get_or_new_def)
qed

theorem ensure_action_group_bak_modern_raises_witness:
  "ensure_action_group_bak slotted_host (VRef 1) ''Location''
     = (Inl AttributeError, slotted_host)"
proof -
  have a: "get_action_channelbag_bak slotted_host (VRef 1) True
             = (Inr (VRef 14), slotted_host)"
    by code_simp
  have b: "is_true slotted_host (VRef 14)" by code_simp
  have c: "py_hasattr slotted_host (VRef 14) ''groups'' = Inr False" by code_simp
  show ?thesis by (rule ensure_action_group_bak_modern_raises [OF a b c])
qed

text \<open>
  C9. With a \<open>None\<close> animation data, or one whose action is \<open>None\<close>, every resolver of
  both modules returns \<open>None\<close> (the empty list for \<^verbatim>\<open>get_fcurves_for_anim_data\<close>) and the
  host is left as it was: no channel bag and no group is created.
  \<^verbatim>\<open>get_channelbag_for_anim_data\<close> and \<^verbatim>\<open>get_fcurves_for_anim_data\<close> only read on
  every path.
\<close>

theorem resolvers_without_action:
  assumes "anim_data = VNone \<or> py_getattr h anim_data ''action'' = Inr VNone"
  shows "get_action_channelbag h anim_data ensure = (Inr VNone, h)
       \<and> get_action_channelbag_bak h anim_data ensure = (Inr VNone, h)
       \<and> ensure_action_group h anim_data group_name = (Inr VNone, h)
       \<and> ensure_action_group_bak h anim_data group_name = (Inr VNone, h)
       \<and> get_channelbag_for_anim_data h anim_data = Inr VNone
       \<and> get_fcurves_for_anim_data h anim_data = Inr []"
  using assms
  by (auto simp: get_action_channelbag_def get_action_channelbag_bak_def ensure_action_group_def
      ensure_action_group_bak_def get_channelbag_for_anim_data_def get_fcurves_for_anim_data_def
      py_getattr_default_def)

theorem resolvers_without_action_witness:
  "py_getattr idle_host (VRef 1) ''action'' = Inr VNone
   \<and> get_action_channelbag idle_host (VRef 1) True = (Inr VNone, idle_host)
   \<and> get_action_channelbag_bak idle_host (VRef 1) True = (Inr VNone, idle_host)
   \<and> ensure_action_group idle_host (VRef 1) ''Location'' = (Inr VNone, idle_host)
   \<and> ensure_action_group_bak idle_host (VRef 1) ''Location'' = (Inr VNone, idle_host)
   \<and> get_channelbag_for_anim_data idle_host (VRef 1) = Inr VNone
   \<and> get_fcurves_for_anim_data idle_host (VRef 1) = Inr []
   \<and> get_action_channelbag idle_host VNone True = (Inr VNone, idle_host)
   \<and> ensure_action_group idle_host VNone ''Location'' = (Inr VNone, idle_host)"
proof -
  have a: "py_getattr idle_host (VRef 1) ''action'' = Inr VNone" by code_simp
  then have b: "VRef 1 = VNone \<or> py_getattr idle_host (VRef 1) ''action'' = Inr VNone" ..
  have c: "VNone = VNone \<or> py_getattr idle_host VNone ''action'' = Inr VNone" by simp
  from a resolvers_without_action [OF b, of True "''Location''"]
    resolvers_without_action [OF c, of True "''Location''"]
  show ?thesis by simp
qed

section \<open>Removing a curve\<close>

text \<open>
  C6. \<^verbatim>\<open>remove_fcurve_from_collection\<close> never raises. It returns \<open>True\<close> exactly when
  both arguments are not \<open>None\<close> and either the keyword call succeeds, or the keyword call
  fails with \<open>TypeError\<close> (the parameter mismatch) and the positional call succeeds. With a
  \<open>None\<close> argument, and after any other failure of the keyword call, it returns \<open>False\<close>
  and has not tried the positional call: the host is as it was.
\<close>

theorem remove_fcurve_from_collection_result:
  "fst (remove_fcurve_from_collection h fcurves fcurve) =
     Inr (fcurves \<noteq> VNone \<and> fcurve \<noteq> VNone \<and>
          (meth_exn h fcurves RemoveKw = None \<or>
           (meth_exn h fcurves RemoveKw = Some TypeError
            \<and> meth_exn h fcurves RemovePos = None)))
   \<and> (fcurves = VNone \<or> fcurve = VNone \<longrightarrow>
        remove_fcurve_from_collection h fcurves fcurve = (Inr False, h))
   \<and> (meth_exn h fcurves RemoveKw = Some e \<and> e \<noteq> TypeError \<longrightarrow>
        remove_fcurve_from_collection h fcurves fcurve = (Inr False, h))"
proof (cases "fcurves = VNone \<or> fcurve = VNone")
  case True
  then show ?thesis by (auto simp: remove_fcurve_from_collection_def call_remove_def)
next
  case args: False
  show ?thesis
  proof (cases "meth_exn h fcurves RemoveKw")
    case None
    then have "fst (call_remove RemoveKw h fcurves fcurve) = Inr ()"
      by (simp add: call_remove_result)
    with args None show ?thesis
      by (auto simp: remove_fcurve_from_collection_def split: prod.splits sum.splits)
  next
    case (Some e')
    then have kw: "call_remove RemoveKw h fcurves fcurve = (Inl e', h)"
      by (rule call_remove_raises)
    show ?thesis
    proof (cases "e' = TypeError")
      case True
      have "fst (call_remove RemovePos h fcurves fcurve) =
              (case meth_exn h fcurves RemovePos of Some e \<Rightarrow> Inl e | None \<Rightarrow> Inr ())"
        by (rule call_remove_result)
      with args Some kw True show ?thesis
        by (auto simp: remove_fcurve_from_collection_def
            split: prod.splits sum.splits option.splits)
    next
      case False
      with args Some kw show ?thesis
        by (auto simp: remove_fcurve_from_collection_def)
    qed
  qed
qed

theorem remove_fcurve_from_collection_result_witness:
  "fst (remove_fcurve_from_collection remove_host (VRef 30) (VRef 40)) = Inr True
   \<and> fst (remove_fcurve_from_collection remove_host (VRef 31) (VRef 40)) = Inr True
   \<and> remove_fcurve_from_collection remove_host (VRef 32) (VRef 40) = (Inr False, remove_host)
   \<and> fst (remove_fcurve_from_collection remove_host (VRef 33) (VRef 40)) = Inr False
   \<and> remove_fcurve_from_collection remove_host VNone (VRef 40) = (Inr False, remove_host)
   \<and> remove_fcurve_from_collection remove_host (VRef 30) VNone = (Inr False, remove_host)"
proof -
  have a: "meth_exn remove_host (VRef 30) RemoveKw = None" by code_simp
  have b: "meth_exn remove_host (VRef 31) RemoveKw = Some TypeError
           \<and> meth_exn remove_host (VRef 31) RemovePos = None" by code_simp
  have c: "meth_exn remove_host (VRef 32) RemoveKw = Some HostError" by code_simp
  have d: "meth_exn remove_host (VRef 33) RemoveKw = Some TypeError
           \<and> meth_exn remove_host (VRef 33) RemovePos = Some TypeError" by code_simp
  from a b c d
    remove_fcurve_from_collection_result [of remove_host "VRef 30" "VRef 40" HostError]
    remove_fcurve_from_collection_result [of remove_host "VRef 31" "VRef 40" HostError]
    remove_fcurve_from_collection_result [of remove_host "VRef 32" "VRef 40" HostError]
    remove_fcurve_from_collection_result [of remove_host "VRef 33" "VRef 40" HostError]
    remove_fcurve_from_collection_result [of remove_host VNone "VRef 40" HostError]
    remove_fcurve_from_collection_result [of remove_host "VRef 30" VNone HostError]
  show ?thesis by simp
qed

section \<open>Enumerating the curves\<close>

text \<open>
  C10. With the action \<open>None\<close>, \<^verbatim>\<open>iter_action_fcurves\<close> of both modules yields nothing
  and returns without an exception, whatever the host is: no attribute is read.
\<close>

theorem iter_action_fcurves_none:
  "iter_action_fcurves h VNone = ([], None) \<and> iter_action_fcurves_bak h VNone = ([], None)"
  by (simp add: iter_action_fcurves_def iter_action_fcurves_bak_def)

text \<open>Hosts that behave: what the primitives give there.\<close>

lemma deref_cases:
  "deref h r = plain_obj \<or> (r, deref h r) \<in> set (heap h)"
  by (auto simp: deref_def split: option.splits dest: map_of_SomeD)

lemma wb_attr:
  assumes "well_behaved h" and "map_of (attrs (deref h r)) a = Some x"
  shows "good_attr h (a, x)"
proof -
  from assms(2) have ne: "attrs (deref h r) \<noteq> []" by auto
  then have "deref h r \<noteq> plain_obj" by (auto simp: plain_obj_def)
  with deref_cases [of h r] have "(r, deref h r) \<in> set (heap h)" by simp
  with assms(1) have "list_all (good_attr h) (attrs (deref h r))"
    by (auto simp: well_behaved_def list_all_iff)
  moreover from assms(2) have "(a, x) \<in> set (attrs (deref h r))" by (rule map_of_SomeD)
  ultimately show ?thesis by (simp add: list_all_iff)
qed

lemma wb_getattr_exn:
  assumes "well_behaved h" and "py_getattr h x a = Inl e"
  shows "e = AttributeError"
proof (cases x)
  case VNone
  with assms(2) show ?thesis by simp
next
  case (VRef r)
  show ?thesis
  proof (cases "map_of (attrs (deref h r)) a")
    case None
    with VRef assms(2) show ?thesis by simp
  next
    case (Some y)
    with VRef assms(2) have "y = Inl e" by simp
    with wb_attr [OF assms(1) Some] show ?thesis by (simp add: good_attr_def)
  qed
qed

lemma wb_getattr_coll:
  assumes "well_behaved h" and "py_getattr h x a = Inr c" and "a \<in> set coll_attrs"
  shows "good_coll h c"
proof (cases x)
  case VNone
  with assms(2) show ?thesis by simp
next
  case (VRef r)
  with assms(2) have "map_of (attrs (deref h r)) a = Some (Inr c)"
    by (auto split: option.splits)
  from wb_attr [OF assms(1) this] assms(3) show ?thesis by (simp add: good_attr_def)
qed

lemma wb_hasattr:
  assumes "well_behaved h"
  shows "py_hasattr h x a = Inr (exposes h x a)"
proof (cases "py_getattr h x a")
  case (Inl e)
  with wb_getattr_exn [OF assms Inl] show ?thesis
    by (simp add: py_hasattr_def exposes_def)
next
  case (Inr c)
  then show ?thesis by (simp add: py_hasattr_def exposes_def)
qed

lemma wb_getattr_default:
  assumes "well_behaved h"
  shows "py_getattr_default h x a = Inr (case py_getattr h x a of Inr c \<Rightarrow> c | Inl e \<Rightarrow> VNone)"
proof (cases "py_getattr h x a")
  case (Inl e)
  with wb_getattr_exn [OF assms Inl] show ?thesis
    by (simp add: py_getattr_default_def)
next
  case (Inr c)
  then show ?thesis by (simp add: py_getattr_default_def)
qed

lemma good_coll_iterate:
  assumes "good_coll h c"
  shows "snd (iterate h c) = None \<and> (is_true h c \<longleftrightarrow> fst (iterate h c) \<noteq> [])"
  using assms by (cases c) (auto simp: good_coll_def)

lemma wb_resolve:
  assumes "well_behaved h" and "has_get_helper h"
  shows "\<exists>cb. action_get_channelbag_for_slot h a s = Inr cb \<and> (cb = VNone \<or> is_true h cb)"
proof (cases "map_of (slot_bags h) (a, s)")
  case None
  with assms(2) show ?thesis by (simp add: action_get_channelbag_for_slot_def)
next
  case (Some x)
  then have "((a, s), x) \<in> set (slot_bags h)" by (rule map_of_SomeD)
  with assms(1) have "good_bag h ((a, s), x)" by (auto simp: well_behaved_def list_all_iff)
  with Some assms(2) show ?thesis
    by (auto simp: good_bag_def action_get_channelbag_for_slot_def split: sum.splits)
qed

lemma gen_each_quiet:
  assumes "\<And>x. x \<in> set xs \<Longrightarrow> body x = (f x, None)"
  shows "gen_each body xs = (concat (map f xs), None)"
  using assms by (induction xs) (auto simp: gen_prepend_def)

lemma gen_level_quiet:
  assumes wb: "well_behaved h" and a: "a \<in> set coll_attrs"
    and body: "\<And>y. y \<in> set (elems h x a) \<Longrightarrow> body y = (f y, None)"
  shows "gen_level h x a body = (concat (map f (elems h x a)), None)"
proof (cases "py_getattr h x a")
  case (Inl e)
  then show ?thesis
    by (simp add: gen_level_def wb_getattr_default [OF wb] elems_def)
next
  case (Inr c)
  from good_coll_iterate [OF wb_getattr_coll [OF wb Inr a]]
  have it: "snd (iterate h c) = None" and tr: "is_true h c \<longleftrightarrow> fst (iterate h c) \<noteq> []"
    by simp_all
  show ?thesis
  proof (cases "is_true h c")
    case False
    with Inr show ?thesis
      by (simp add: gen_level_def wb_getattr_default [OF wb] elems_def)
  next
    case True
    with Inr have el: "elems h x a = fst (iterate h c)" by (simp add: elems_def)
    from body have "gen_each body (elems h x a) = (concat (map f (elems h x a)), None)"
      by (rule gen_each_quiet)
    with True Inr it el show ?thesis
      by (simp add: gen_level_def wb_getattr_default [OF wb] gen_for_def)
  qed
qed

lemma layered_fcurves_quiet:
  assumes wb: "well_behaved h"
  shows "layered_fcurves h action = (layered_curves h action, None)"
proof -
  have fc: "gen_level h cb ''fcurves'' (\<lambda>fc. ([fc], None)) = (elems h cb ''fcurves'', None)" for cb
    using gen_level_quiet [OF wb, of "''fcurves''" cb "\<lambda>fc. ([fc], None)" "\<lambda>fc. [fc]"]
    by (simp add: coll_attrs_def)
  have cbs: "gen_level h strip ''channelbags''
               (\<lambda>cb. gen_level h cb ''fcurves'' (\<lambda>fc. ([fc], None)))
             = (concat (map (\<lambda>cb. elems h cb ''fcurves'') (elems h strip ''channelbags'')), None)"
    for strip
    by (rule gen_level_quiet [OF wb]) (simp_all add: coll_attrs_def fc)
  have strips: "gen_level h layer ''strips'' (\<lambda>strip. gen_level h strip ''channelbags''
               (\<lambda>cb. gen_level h cb ''fcurves'' (\<lambda>fc. ([fc], None))))
             = (concat (map (\<lambda>strip. concat (map (\<lambda>cb. elems h cb ''fcurves'')
                 (elems h strip ''channelbags''))) (elems h layer ''strips'')), None)"
    for layer
    by (rule gen_level_quiet [OF wb]) (simp_all add: coll_attrs_def cbs)
  show ?thesis
    unfolding layered_fcurves_def layered_curves_def
    by (rule gen_level_quiet [OF wb]) (simp_all add: coll_attrs_def strips)
qed

lemma wb_legacy_items:
  assumes wb: "well_behaved h" and g: "py_getattr h action ''fcurves'' = Inr c"
  shows "iterate h c = (elems h action ''fcurves'', None)"
proof -
  from good_coll_iterate [OF wb_getattr_coll [OF wb g]]
  have "snd (iterate h c) = None" and "is_true h c \<longleftrightarrow> fst (iterate h c) \<noteq> []"
    by (simp_all add: coll_attrs_def)
  with g show ?thesis by (cases "iterate h c") (auto simp: elems_def)
qed

lemma iter_action_fcurves_quiet:
  assumes wb: "well_behaved h"
  shows "iter_action_fcurves h action = (legacy_or_layered_curves h action, None)"
proof (cases "py_getattr h action ''fcurves''")
  case (Inl e)
  then have "\<not> exposes h action ''fcurves''" by (simp add: exposes_def)
  then show ?thesis
    by (simp add: iter_action_fcurves_def legacy_or_layered_curves_def wb_hasattr [OF wb]
        layered_fcurves_quiet [OF wb])
next
  case (Inr c)
  then have "exposes h action ''fcurves''" by (simp add: exposes_def)
  moreover from Inr have "action \<noteq> VNone" by auto
  ultimately show ?thesis using Inr wb_legacy_items [OF wb Inr]
    by (simp add: iter_action_fcurves_def legacy_or_layered_curves_def wb_hasattr [OF wb])
qed

lemma legacy_fcurves_bak_quiet:
  assumes wb: "well_behaved h"
  shows "legacy_fcurves_bak h action =
     ((if exposes h action ''fcurves'' then elems h action ''fcurves''
       else layered_curves h action), None)"
proof (cases "py_getattr h action ''fcurves''")
  case (Inl e)
  then have "\<not> exposes h action ''fcurves''" by (simp add: exposes_def)
  then show ?thesis
    by (simp add: legacy_fcurves_bak_def wb_hasattr [OF wb] layered_fcurves_quiet [OF wb])
next
  case (Inr c)
  then have ex: "exposes h action ''fcurves''" by (simp add: exposes_def)
  show ?thesis
  proof (cases "is_true h c")
    case True
    with ex Inr wb_legacy_items [OF wb Inr] show ?thesis
      by (simp add: legacy_fcurves_bak_def wb_hasattr [OF wb])
  next
    case False
    with Inr have "elems h action ''fcurves'' = []" by (simp add: elems_def)
    with False ex Inr show ?thesis
      by (simp add: legacy_fcurves_bak_def wb_hasattr [OF wb])
  qed
qed

lemma slot_body_bak_quiet:
  assumes wb: "well_behaved h" and helper: "has_get_helper h"
  shows "slot_body_bak h action slot =
     ((case action_get_channelbag_for_slot h action slot of
         Inr cb \<Rightarrow> elems h cb ''fcurves'' | Inl e \<Rightarrow> []), None)"
proof -
  from wb_resolve [OF wb helper] obtain cb
    where r: "action_get_channelbag_for_slot h action slot = Inr cb"
      and t: "cb = VNone \<or> is_true h cb" by blast
  show ?thesis
  proof (cases "is_true h cb")
    case False
    with t have "cb = VNone" by simp
    with r show ?thesis by (simp add: slot_body_bak_def elems_def)
  next
    case True
    show ?thesis
    proof (cases "py_getattr h cb ''fcurves''")
      case (Inl e)
      with r True show ?thesis
        by (simp add: slot_body_bak_def wb_getattr_default [OF wb] elems_def)
    next
      case (Inr c)
      from good_coll_iterate [OF wb_getattr_coll [OF wb Inr]]
      have it: "snd (iterate h c) = None" by (simp add: coll_attrs_def)
      have "gen_each (\<lambda>fc. ([fc], None)) (fst (iterate h c)) = (fst (iterate h c), None)"
        using gen_each_quiet [of "fst (iterate h c)" "\<lambda>fc. ([fc], None)" "\<lambda>fc. [fc]"]
        by simp
      with r True Inr it show ?thesis
        by (simp add: slot_body_bak_def wb_getattr_default [OF wb] elems_def gen_for_def)
    qed
  qed
qed

lemma slotted_fcurves_bak_taken:
  assumes wb: "well_behaved h" and helper: "helper_exposed h"
    and slots: "elems h action ''slots'' \<noteq> []"
  shows "slotted_fcurves_bak h action = Some (slotted_curves h action, None)"
proof -
  from helper have u: "has_anim_utils h" and g: "has_get_helper h"
    by (simp_all add: helper_exposed_def)
  from slots obtain c where ga: "py_getattr h action ''slots'' = Inr c" and tr: "is_true h c"
    and el: "elems h action ''slots'' = fst (iterate h c)"
    by (auto simp: elems_def split: sum.splits if_splits)
  from good_coll_iterate [OF wb_getattr_coll [OF wb ga]]
  have it: "snd (iterate h c) = None" by (simp add: coll_attrs_def)
  have "gen_each (slot_body_bak h action) (fst (iterate h c))
        = (concat (map (\<lambda>slot. case action_get_channelbag_for_slot h action slot of
             Inr cb \<Rightarrow> elems h cb ''fcurves'' | Inl e \<Rightarrow> []) (fst (iterate h c))), None)"
    by (rule gen_each_quiet) (rule slot_body_bak_quiet [OF wb g])
  with u ga tr it el show ?thesis
    by (simp add: slotted_fcurves_bak_def import_anim_utils_def wb_getattr_default [OF wb]
        gen_for_def slotted_curves_def)
qed

lemma slotted_fcurves_bak_skipped:
  assumes wb: "well_behaved h"
    and no: "\<not> (helper_exposed h \<and> elems h action ''slots'' \<noteq> [])"
  shows "slotted_fcurves_bak h action = None
       \<or> (\<exists>e. slotted_fcurves_bak h action = Some ([], Some e))"
proof (cases "has_anim_utils h")
  case False
  then show ?thesis by (simp add: slotted_fcurves_bak_def import_anim_utils_def)
next
  case u: True
  show ?thesis
  proof (cases "py_getattr h action ''slots''")
    case (Inl e)
    with u show ?thesis
      by (simp add: slotted_fcurves_bak_def import_anim_utils_def wb_getattr_default [OF wb])
  next
    case (Inr c)
    show ?thesis
    proof (cases "is_true h c")
      case False
      with u Inr show ?thesis
        by (simp add: slotted_fcurves_bak_def import_anim_utils_def wb_getattr_default [OF wb])
    next
      case True
      from good_coll_iterate [OF wb_getattr_coll [OF wb Inr]] True
      have ne: "fst (iterate h c) \<noteq> []" by (simp add: coll_attrs_def)
      with True Inr have "elems h action ''slots'' \<noteq> []" by (simp add: elems_def)
      with no u have g: "\<not> has_get_helper h" by (simp add: helper_exposed_def)
      from ne obtain s ss where "fst (iterate h c) = s # ss" by (cases "fst (iterate h c)") auto
      with g u Inr True show ?thesis
        by (simp add: slotted_fcurves_bak_def import_anim_utils_def wb_getattr_default [OF wb]
            gen_for_def slot_body_bak_def action_get_channelbag_for_slot_def)
    qed
  qed
qed

lemma iter_action_fcurves_bak_quiet:
  assumes wb: "well_behaved h"
  shows "iter_action_fcurves_bak h action = (iterate_curves_spec h action, None)"
proof (cases "action = VNone")
  case True
  then show ?thesis by (simp add: iter_action_fcurves_bak_def iterate_curves_spec_def)
next
  case act: False
  show ?thesis
  proof (cases "helper_exposed h \<and> elems h action ''slots'' \<noteq> []")
    case True
    with slotted_fcurves_bak_taken [OF wb, of action] act show ?thesis
      by (simp add: iter_action_fcurves_bak_def iterate_curves_spec_def)
  next
    case False
    from slotted_fcurves_bak_skipped [OF wb False] act False show ?thesis
      by (auto simp: iter_action_fcurves_bak_def iterate_curves_spec_def gen_prepend_def
          legacy_fcurves_bak_quiet [OF wb])
  qed
qed

text \<open>
  C4. In a host that behaves, on an action that exposes no flat collection,
  \<^verbatim>\<open>iter_action_fcurves\<close> yields the curves of the layered shape flattened depth first,
  layer, then strip, then channel bag, then curve, and returns without an exception; so
  does the function of \<^verbatim>\<open>xplane_anim_compat_bak.py\<close> when the slotted shape does not
  apply. In any host, a level whose collection is absent or falsy contributes nothing and
  raises nothing.
\<close>

theorem layered_depth_first:
  "(well_behaved h \<and> action \<noteq> VNone \<and> \<not> exposes h action ''fcurves'' \<longrightarrow>
      iter_action_fcurves h action = (layered_curves h action, None)
      \<and> (\<not> (helper_exposed h \<and> elems h action ''slots'' \<noteq> []) \<longrightarrow>
           iter_action_fcurves_bak h action = (layered_curves h action, None)))
   \<and> (py_getattr h x a = Inl AttributeError
        \<or> (\<exists>c. py_getattr h x a = Inr c \<and> \<not> is_true h c) \<longrightarrow>
        gen_level h x a body = ([], None) \<and> elems h x a = [])"
proof (intro conjI impI)
  assume "well_behaved h \<and> action \<noteq> VNone \<and> \<not> exposes h action ''fcurves''"
  then show "iter_action_fcurves h action = (layered_curves h action, None)"
    by (simp add: iter_action_fcurves_quiet legacy_or_layered_curves_def)
next
  assume "well_behaved h \<and> action \<noteq> VNone \<and> \<not> exposes h action ''fcurves''"
    and "\<not> (helper_exposed h \<and> elems h action ''slots'' \<noteq> [])"
  then show "iter_action_fcurves_bak h action = (layered_curves h action, None)"
    by (auto simp: iter_action_fcurves_bak_quiet iterate_curves_spec_def)
next
  assume "py_getattr h x a = Inl AttributeError
        \<or> (\<exists>c. py_getattr h x a = Inr c \<and> \<not> is_true h c)"
  then show "gen_level h x a body = ([], None)"
    by (auto simp: gen_level_def py_getattr_default_def)
next
  assume "py_getattr h x a = Inl AttributeError
        \<or> (\<exists>c. py_getattr h x a = Inr c \<and> \<not> is_true h c)"
  then show "elems h x a = []"
    by (auto simp: elems_def)
qed

theorem layered_depth_first_witness:
  "well_behaved layered_host \<and> \<not> exposes layered_host (VRef 2) ''fcurves''
   \<and> \<not> helper_exposed layered_host
   \<and> layered_curves layered_host (VRef 2) = [VRef 24, VRef 25]
   \<and> iter_action_fcurves layered_host (VRef 2) = ([VRef 24, VRef 25], None)
   \<and> iter_action_fcurves_bak layered_host (VRef 2) = ([VRef 24, VRef 25], None)
   \<and> py_getattr layered_host (VRef 16) ''channelbags'' = Inr (VRef 17)
   \<and> \<not> is_true layered_host (VRef 17)
   \<and> gen_level layered_host (VRef 16) ''channelbags'' (\<lambda>cb. ([cb], None)) = ([], None)
   \<and> py_getattr layered_host (VRef 24) ''layers'' = Inl AttributeError
   \<and> gen_level layered_host (VRef 24) ''layers'' (\<lambda>cb. ([cb], None)) = ([], None)"
proof -
  have a: "well_behaved layered_host" by code_simp
  have b: "\<not> exposes layered_host (VRef 2) ''fcurves''" by code_simp
  have c: "\<not> helper_exposed layered_host" by code_simp
  have d: "layered_curves layered_host (VRef 2) = [VRef 24, VRef 25]" by code_simp
  have e: "py_getattr layered_host (VRef 16) ''channelbags'' = Inr (VRef 17)" by code_simp
  have f: "\<not> is_true layered_host (VRef 17)" by code_simp
  have g: "py_getattr layered_host (VRef 24) ''layers'' = Inl AttributeError" by code_simp
  from a b c d e f g
    layered_depth_first [of layered_host "VRef 2" "VRef 16" "''channelbags''" "\<lambda>cb. ([cb], None)"]
    layered_depth_first [of layered_host "VRef 2" "VRef 24" "''layers''" "\<lambda>cb. ([cb], None)"]
  show ?thesis by simp
qed

text \<open>
  C1, as the code has it. In a host that behaves, \<^verbatim>\<open>iter_action_fcurves\<close> of
  \<^verbatim>\<open>xplane_anim_compat_bak.py\<close> follows the order of the specification: the slotted
  shape, else the legacy flat collection, else the layered shape; the function of
  \<^verbatim>\<open>xplane_anim_compat.py\<close> never consults the slots: it yields the legacy flat
  collection when the action exposes it, else the layered shape.
\<close>

theorem preference_order:
  assumes "well_behaved h"
  shows "iter_action_fcurves_bak h action = (iterate_curves_spec h action, None)
       \<and> iter_action_fcurves h action = (legacy_or_layered_curves h action, None)"
  using assms by (simp add: iter_action_fcurves_bak_quiet iter_action_fcurves_quiet)

theorem preference_order_witness:
  "well_behaved proxy_host
   \<and> iter_action_fcurves_bak proxy_host (VRef 2) = ([VRef 20, VRef 21], None)
   \<and> iter_action_fcurves proxy_host (VRef 2) = ([VRef 20], None)"
proof -
  have a: "well_behaved proxy_host" by code_simp
  have b: "iterate_curves_spec proxy_host (VRef 2) = [VRef 20, VRef 21]" by code_simp
  have c: "legacy_or_layered_curves proxy_host (VRef 2) = [VRef 20]" by code_simp
  from a b c preference_order [OF a, of "VRef 2"] show ?thesis by simp
qed

text \<open>
  C1, as the claim states it, fails for \<^verbatim>\<open>xplane_anim_compat.py\<close>: the host exposes the
  helper and the action has the slots 5 and 6, whose bags hold the curves 20 and 21, yet
  the function yields the flat collection, the curve 20 alone.
\<close>

theorem preference_order_counterexample:
  "helper_exposed proxy_host
   \<and> elems proxy_host (VRef 2) ''slots'' = [VRef 5, VRef 6]
   \<and> iterate_curves_spec proxy_host (VRef 2) = [VRef 20, VRef 21]
   \<and> iter_action_fcurves proxy_host (VRef 2) = ([VRef 20], None)"
  by code_simp

text \<open>
  C2, as the code has it. The shape that matches supplies the whole sequence as long as
  its enumeration completes; when it raises after some curves, these stay yielded and the
  code falls through to the next shape, whose curves follow.
\<close>

theorem shapes_merge_after_failure:
  "(py_getattr h action ''fcurves'' = Inr c \<and> iterate h c = (xs, None) \<longrightarrow>
      iter_action_fcurves h action = (xs, None))
   \<and> (py_getattr h action ''fcurves'' = Inr c \<and> iterate h c = (xs, Some e) \<longrightarrow>
      iter_action_fcurves h action = gen_prepend xs (layered_fcurves h action))
   \<and> (action \<noteq> VNone \<and> slotted_fcurves_bak h action = Some (ys, None) \<longrightarrow>
      iter_action_fcurves_bak h action = (ys, None))
   \<and> (action \<noteq> VNone \<and> slotted_fcurves_bak h action = Some (ys, Some e) \<longrightarrow>
      iter_action_fcurves_bak h action = gen_prepend ys (legacy_fcurves_bak h action))
   \<and> (py_getattr h action ''fcurves'' = Inr c \<and> is_true h c \<and> iterate h c = (xs, None) \<longrightarrow>
      legacy_fcurves_bak h action = (xs, None))
   \<and> (py_getattr h action ''fcurves'' = Inr c \<and> is_true h c \<and> iterate h c = (xs, Some e) \<longrightarrow>
      legacy_fcurves_bak h action = gen_prepend xs (layered_fcurves h action))"
proof -
  have act: "action \<noteq> VNone" if "py_getattr h action ''fcurves'' = Inr c"
    using that by auto
  show ?thesis
    by (auto simp: iter_action_fcurves_def iter_action_fcurves_bak_def legacy_fcurves_bak_def
        py_hasattr_def dest: act)
qed

theorem shapes_merge_after_failure_witness:
  "py_getattr failing_host (VRef 2) ''fcurves'' = Inr (VRef 3)
   \<and> is_true failing_host (VRef 3)
   \<and> iterate failing_host (VRef 3) = ([VRef 10], Some HostError)
   \<and> layered_fcurves failing_host (VRef 2) = ([VRef 24], None)
   \<and> iter_action_fcurves failing_host (VRef 2) = ([VRef 10, VRef 24], None)
   \<and> slotted_fcurves_bak failing_host (VRef 2) = Some ([VRef 20], Some HostError)
   \<and> legacy_fcurves_bak failing_host (VRef 2) = ([VRef 10, VRef 24], None)
   \<and> iter_action_fcurves_bak failing_host (VRef 2) = ([VRef 20, VRef 10, VRef 24], None)
   \<and> iterate legacy_host (VRef 3) = ([VRef 10, VRef 11], None)
   \<and> iter_action_fcurves legacy_host (VRef 2) = ([VRef 10, VRef 11], None)
   \<and> legacy_fcurves_bak legacy_host (VRef 2) = ([VRef 10, VRef 11], None)
   \<and> slotted_fcurves_bak slotted_host (VRef 2) = Some ([VRef 20], None)
   \<and> iter_action_fcurves_bak slotted_host (VRef 2) = ([VRef 20], None)"
proof -
  have a: "py_getattr failing_host (VRef 2) ''fcurves'' = Inr (VRef 3)" by code_simp
  have b: "is_true failing_host (VRef 3)" by code_simp
  have c: "iterate failing_host (VRef 3) = ([VRef 10], Some HostError)" by code_simp
  have d: "layered_fcurves failing_host (VRef 2) = ([VRef 24], None)" by code_simp
  have e: "slotted_fcurves_bak failing_host (VRef 2) = Some ([VRef 20], Some HostError)"
    by code_simp
  have f: "py_getattr legacy_host (VRef 2) ''fcurves'' = Inr (VRef 3)" by code_simp
  have g: "is_true legacy_host (VRef 3)" by code_simp
  have i: "iterate legacy_host (VRef 3) = ([VRef 10, VRef 11], None)" by code_simp
  have j: "slotted_fcurves_bak slotted_host (VRef 2) = Some ([VRef 20], None)" by code_simp
  from a b c d e
    shapes_merge_after_failure [of failing_host "VRef 2" "VRef 3" "[VRef 10]" HostError "[VRef 20]"]
  have 1: "iter_action_fcurves failing_host (VRef 2) = ([VRef 10, VRef 24], None)"
    and 2: "legacy_fcurves_bak failing_host (VRef 2) = ([VRef 10, VRef 24], None)"
    and 3: "iter_action_fcurves_bak failing_host (VRef 2) = ([VRef 20, VRef 10, VRef 24], None)"
    by (simp_all add: gen_prepend_def)
  from f g i
    shapes_merge_after_failure [of legacy_host "VRef 2" "VRef 3" "[VRef 10, VRef 11]" HostError "[]"]
  have 4: "iter_action_fcurves legacy_host (VRef 2) = ([VRef 10, VRef 11], None)"
    and 5: "legacy_fcurves_bak legacy_host (VRef 2) = ([VRef 10, VRef 11], None)"
    by simp_all
  from j shapes_merge_after_failure [of slotted_host "VRef 2" "VRef 3" "[]" HostError "[VRef 20]"]
  have 6: "iter_action_fcurves_bak slotted_host (VRef 2) = ([VRef 20], None)"
    by simp
  from a b c d e i j 1 2 3 4 5 6 show ?thesis by simp
qed

text \<open>
  C2, as the claim states it, fails in both modules. The iteration of the flat collection
  of the action raises after the curve 10: \<^verbatim>\<open>xplane_anim_compat.py\<close> goes on with the
  layers and yields the curve 24 after it. In \<^verbatim>\<open>xplane_anim_compat_bak.py\<close> resolving
  the second slot raises after the curve 20 of the first: the curves of the flat
  collection and of the layers follow.
\<close>

theorem shapes_merge_counterexample:
  "elems failing_host (VRef 2) ''fcurves'' = [VRef 10]
   \<and> layered_curves failing_host (VRef 2) = [VRef 24]
   \<and> iter_action_fcurves failing_host (VRef 2) = ([VRef 10, VRef 24], None)
   \<and> iter_action_fcurves_bak failing_host (VRef 2) = ([VRef 20, VRef 10, VRef 24], None)"
  by code_simp

section \<open>Which exceptions leave the functions\<close>

lemma ensure_helper_raises:
  "action_ensure_channelbag_for_slot h a s ens = (Inl e, h') \<Longrightarrow> h' = h"
  by (auto simp: action_ensure_channelbag_for_slot_def Let_def
      split: if_splits option.splits sum.splits val.splits)

lemma get_action_channelbag_escape:
  assumes "fst (get_action_channelbag h anim_data ensure) = Inl e"
  shows "py_getattr h anim_data ''action'' = Inl e
       \<or> (\<exists>a. py_getattr h anim_data ''action'' = Inr a \<and> py_getattr h a ''groups'' = Inl e
              \<and> e \<noteq> AttributeError)"
  using assms
  by (auto simp: get_action_channelbag_def py_hasattr_def
      split: if_splits sum.splits prod.splits exn.splits)

lemma get_action_channelbag_bak_escape:
  assumes "fst (get_action_channelbag_bak h anim_data ensure) = Inl e"
  shows "py_getattr h anim_data ''action'' = Inl e
       \<or> (\<exists>a. py_getattr h anim_data ''action'' = Inr a \<and> py_getattr h a ''groups'' = Inl e
              \<and> e \<noteq> AttributeError)"
proof -
  have same: "py_getattr h' a ''groups'' = py_getattr h a ''groups''"
    if "slot_channelbag_bak h anim_data a ensure = (Inl e', h')" for a e' h'
    using that
    by (auto simp: slot_channelbag_bak_def ensure_or_get_bak_def
          action_get_channelbag_for_slot_def
        split: sum.splits if_splits prod.splits option.splits dest: ensure_helper_raises)
  have none: "h' = h"
    if "slot_channelbag_bak h anim_data a ensure = (Inr None, h')" for a h'
    using that
    by (auto simp: slot_channelbag_bak_def split: sum.splits if_splits prod.splits)
  from assms show ?thesis
    by (auto simp: get_action_channelbag_bak_def py_hasattr_def
        split: if_splits sum.splits prod.splits exn.splits option.splits
        dest: same none)
qed

lemma get_channelbag_for_anim_data_escape:
  assumes "get_channelbag_for_anim_data h anim_data = Inl e"
  shows "e \<noteq> AttributeError
       \<and> (py_getattr h anim_data ''action'' = Inl e
          \<or> py_getattr h anim_data ''action_slot'' = Inl e)"
  using assms
  by (auto simp: get_channelbag_for_anim_data_def py_getattr_default_def
      split: if_splits sum.splits exn.splits)

lemma get_fcurves_for_anim_data_escape:
  assumes "get_fcurves_for_anim_data h anim_data = Inl e"
  shows "py_getattr h anim_data ''action'' = Inl e
       \<or> (\<exists>a. py_getattr h anim_data ''action'' = Inr a
              \<and> ((py_getattr h a ''fcurves'' = Inl e \<and> e \<noteq> AttributeError)
                 \<or> (\<exists>c. py_getattr h a ''fcurves'' = Inr c \<and> snd (iterate h c) = Some e)))"
  using assms
  by (auto simp: get_fcurves_for_anim_data_def py_hasattr_def list_of_def
      split: if_splits sum.splits exn.splits option.splits prod.splits)

lemma iter_action_fcurves_escape:
  assumes "snd (iter_action_fcurves h action) = Some e"
  shows "(py_getattr h action ''fcurves'' = Inl e \<and> e \<noteq> AttributeError)
       \<or> snd (layered_fcurves h action) = Some e"
  using assms
  by (auto simp: iter_action_fcurves_def py_hasattr_def gen_prepend_def
      split: if_splits sum.splits exn.splits option.splits prod.splits)

lemma legacy_fcurves_bak_escape:
  assumes "snd (legacy_fcurves_bak h action) = Some e"
  shows "(py_getattr h action ''fcurves'' = Inl e \<and> e \<noteq> AttributeError)
       \<or> snd (layered_fcurves h action) = Some e"
  using assms
  by (auto simp: legacy_fcurves_bak_def py_hasattr_def gen_prepend_def
      split: if_splits sum.splits exn.splits option.splits prod.splits)

lemma iter_action_fcurves_bak_escape:
  assumes "snd (iter_action_fcurves_bak h action) = Some e"
  shows "(py_getattr h action ''fcurves'' = Inl e \<and> e \<noteq> AttributeError)
       \<or> snd (layered_fcurves h action) = Some e"
  using assms legacy_fcurves_bak_escape [of h action e]
  by (auto simp: iter_action_fcurves_bak_def gen_prepend_def
      split: if_splits option.splits prod.splits)

lemma call_new_result:
  "fst (call_new m h g name) = (case meth_exn h g m of Some e \<Rightarrow> Inl e | None \<Rightarrow> Inr (VRef (fresh h)))"
  by (cases g) (auto simp: call_new_def Let_def split: option.splits)

lemma get_or_new_escape:
  assumes "fst (get_or_new m h container name) = Inl e"
  shows "py_getattr h container ''groups'' = Inl e
       \<or> (\<exists>g. py_getattr h container ''groups'' = Inr g
              \<and> (call_get h g name = Inl e \<or> meth_exn h g m = Some e))"
  using assms
  by (auto simp: get_or_new_def call_new_result split: sum.splits if_splits option.splits)

lemma ensure_action_group_escape:
  assumes "fst (ensure_action_group h anim_data name) = Inl e"
  shows "fst (get_action_channelbag h anim_data True) = Inl e
       \<or> (\<exists>cb h'. get_action_channelbag h anim_data True = (Inr cb, h')
              \<and> ((py_getattr h' cb ''groups'' = Inl e \<and> e \<noteq> AttributeError)
                 \<or> (\<exists>g. py_getattr h' cb ''groups'' = Inr g
                        \<and> (call_get h' g name = Inl e \<or> meth_exn h' g New = Some e))))"
proof -
  have ga: "fst (get_action_channelbag h anim_data True) = Inl e"
    if "py_getattr h anim_data ''action'' = Inl e" "is_true h anim_data"
    using that by (simp add: get_action_channelbag_def)
  from assms show ?thesis
    by (auto simp: ensure_action_group_def py_hasattr_def
        split: if_splits sum.splits prod.splits exn.splits
        dest!: get_or_new_escape ga)
qed

lemma remove_fcurve_from_collection_returns:
  "\<exists>b. fst (remove_fcurve_from_collection h fcurves fcurve) = Inr b"
  by (auto simp: remove_fcurve_from_collection_def split: prod.splits sum.splits)

text \<open>
  C5, as the code has it. An exception raised inside one of the \<^verbatim>\<open>try\<close> blocks is
  caught; an exception raised by a read or a call outside of them reaches the caller.
  \<^verbatim>\<open>remove_fcurve_from_collection\<close> never raises. \<^verbatim>\<open>get_action_channelbag\<close> of both
  modules raises only what reading \<^verbatim>\<open>anim_data.action\<close> raises, or what probing
  \<^verbatim>\<open>action.groups\<close> raises other than \<open>AttributeError\<close>;
  \<^verbatim>\<open>get_channelbag_for_anim_data\<close> only what reading \<^verbatim>\<open>anim_data.action\<close> or
  \<^verbatim>\<open>anim_data.action_slot\<close> raises other than \<open>AttributeError\<close>;
  \<^verbatim>\<open>get_fcurves_for_anim_data\<close> only what reading \<^verbatim>\<open>anim_data.action\<close>, probing
  \<^verbatim>\<open>action.fcurves\<close> or iterating it in the legacy fallback raises;
  \<^verbatim>\<open>iter_action_fcurves\<close> of both modules only what probing \<^verbatim>\<open>action.fcurves\<close> or the
  loops over the layers raise; \<^verbatim>\<open>ensure_action_group\<close> of \<^verbatim>\<open>xplane_anim_compat.py\<close>
  only what \<^verbatim>\<open>get_action_channelbag\<close>, probing \<^verbatim>\<open>container.groups\<close>,
  \<^verbatim>\<open>groups.get\<close> or \<^verbatim>\<open>groups.new\<close> raise.
\<close>

theorem exceptions_leave_only_unguarded:
  "fst (remove_fcurve_from_collection h fcurves fcurve) \<noteq> Inl e
   \<and> (fst (get_action_channelbag h anim_data ensure) = Inl e
        \<or> fst (get_action_channelbag_bak h anim_data ensure) = Inl e \<longrightarrow>
        py_getattr h anim_data ''action'' = Inl e
        \<or> (\<exists>a. py_getattr h anim_data ''action'' = Inr a
               \<and> py_getattr h a ''groups'' = Inl e \<and> e \<noteq> AttributeError))
   \<and> (get_channelbag_for_anim_data h anim_data = Inl e \<longrightarrow>
        e \<noteq> AttributeError
        \<and> (py_getattr h anim_data ''action'' = Inl e
           \<or> py_getattr h anim_data ''action_slot'' = Inl e))
   \<and> (get_fcurves_for_anim_data h anim_data = Inl e \<longrightarrow>
        py_getattr h anim_data ''action'' = Inl e
        \<or> (\<exists>a. py_getattr h anim_data ''action'' = Inr a
               \<and> ((py_getattr h a ''fcurves'' = Inl e \<and> e \<noteq> AttributeError)
                  \<or> (\<exists>c. py_getattr h a ''fcurves'' = Inr c \<and> snd (iterate h c) = Some e))))
   \<and> (snd (iter_action_fcurves h action) = Some e
        \<or> snd (iter_action_fcurves_bak h action) = Some e \<longrightarrow>
        (py_getattr h action ''fcurves'' = Inl e \<and> e \<noteq> AttributeError)
        \<or> snd (layered_fcurves h action) = Some e)
   \<and> (fst (ensure_action_group h anim_data name) = Inl e \<longrightarrow>
        fst (get_action_channelbag h anim_data True) = Inl e
        \<or> (\<exists>cb h'. get_action_channelbag h anim_data True = (Inr cb, h')
               \<and> ((py_getattr h' cb ''groups'' = Inl e \<and> e \<noteq> AttributeError)
                  \<or> (\<exists>g. py_getattr h' cb ''groups'' = Inr g
                         \<and> (call_get h' g name = Inl e \<or> meth_exn h' g New = Some e)))))"
proof (intro conjI impI)
  from remove_fcurve_from_collection_returns [of h fcurves fcurve]
  show "fst (remove_fcurve_from_collection h fcurves fcurve) \<noteq> Inl e" by auto
next
  assume "fst (get_action_channelbag h anim_data ensure) = Inl e
        \<or> fst (get_action_channelbag_bak h anim_data ensure) = Inl e"
  then show "py_getattr h anim_data ''action'' = Inl e
        \<or> (\<exists>a. py_getattr h anim_data ''action'' = Inr a
               \<and> py_getattr h a ''groups'' = Inl e \<and> e \<noteq> AttributeError)"
    using get_action_channelbag_escape get_action_channelbag_bak_escape by blast
next
  assume "get_channelbag_for_anim_data h anim_data = Inl e"
  from get_channelbag_for_anim_data_escape [OF this]
  show "e \<noteq> AttributeError" by simp
next
  assume "get_channelbag_for_anim_data h anim_data = Inl e"
  from get_channelbag_for_anim_data_escape [OF this]
  show "py_getattr h anim_data ''action'' = Inl e
           \<or> py_getattr h anim_data ''action_slot'' = Inl e" by simp
next
  assume "get_fcurves_for_anim_data h anim_data = Inl e"
  then show "py_getattr h anim_data ''action'' = Inl e
        \<or> (\<exists>a. py_getattr h anim_data ''action'' = Inr a
               \<and> ((py_getattr h a ''fcurves'' = Inl e \<and> e \<noteq> AttributeError)
                  \<or> (\<exists>c. py_getattr h a ''fcurves'' = Inr c \<and> snd (iterate h c) = Some e)))"
    by (rule get_fcurves_for_anim_data_escape)
next
  assume "snd (iter_action_fcurves h action) = Some e
        \<or> snd (iter_action_fcurves_bak h action) = Some e"
  then show "(py_getattr h action ''fcurves'' = Inl e \<and> e \<noteq> AttributeError)
        \<or> snd (layered_fcurves h action) = Some e"
    using iter_action_fcurves_escape iter_action_fcurves_bak_escape by blast
next
  assume "fst (ensure_action_group h anim_data name) = Inl e"
  then show "fst (get_action_channelbag h anim_data True) = Inl e
        \<or> (\<exists>cb h'. get_action_channelbag h anim_data True = (Inr cb, h')
               \<and> ((py_getattr h' cb ''groups'' = Inl e \<and> e \<noteq> AttributeError)
                  \<or> (\<exists>g. py_getattr h' cb ''groups'' = Inr g
                         \<and> (call_get h' g name = Inl e \<or> meth_exn h' g New = Some e))))"
    by (rule ensure_action_group_escape)
qed

theorem exceptions_leave_only_unguarded_witness:
  "fst (get_action_channelbag stale_host (VRef 1) False) = Inl HostError
   \<and> fst (get_action_channelbag_bak stale_host (VRef 1) False) = Inl HostError
   \<and> get_channelbag_for_anim_data stale_host (VRef 1) = Inl HostError
   \<and> get_fcurves_for_anim_data stale_host (VRef 1) = Inl HostError
   \<and> py_getattr stale_host (VRef 1) ''action'' = Inl HostError
   \<and> snd (iter_action_fcurves locked_host (VRef 3)) = Some HostError
   \<and> snd (iter_action_fcurves_bak locked_host (VRef 3)) = Some HostError
   \<and> snd (layered_fcurves locked_host (VRef 3)) = Some HostError
   \<and> fst (ensure_action_group locked_host (VRef 1) ''Location'') = Inl HostError
   \<and> get_action_channelbag locked_host (VRef 1) True = (Inr (VRef 2), locked_host)
   \<and> py_getattr locked_host (VRef 2) ''groups'' = Inr (VRef 4)
   \<and> meth_exn locked_host (VRef 4) New = Some HostError
   \<and> (\<exists>b. fst (remove_fcurve_from_collection remove_host (VRef 33) (VRef 40)) = Inr b)"
proof -
  have a: "fst (get_action_channelbag stale_host (VRef 1) False) = Inl HostError" by code_simp
  have b: "fst (get_action_channelbag_bak stale_host (VRef 1) False) = Inl HostError"
    by code_simp
  have c: "get_channelbag_for_anim_data stale_host (VRef 1) = Inl HostError" by code_simp
  have d: "get_fcurves_for_anim_data stale_host (VRef 1) = Inl HostError" by code_simp
  have e: "snd (iter_action_fcurves locked_host (VRef 3)) = Some HostError" by code_simp
  have f: "snd (iter_action_fcurves_bak locked_host (VRef 3)) = Some HostError" by code_simp
  have g: "fst (ensure_action_group locked_host (VRef 1) ''Location'') = Inl HostError"
    by code_simp
  have i: "get_action_channelbag locked_host (VRef 1) True = (Inr (VRef 2), locked_host)"
    by code_simp
  have j: "py_getattr locked_host (VRef 2) ''groups'' = Inr (VRef 4)" by code_simp
  have k: "meth_exn locked_host (VRef 4) New = Some HostError" by code_simp
  have l: "py_getattr locked_host (VRef 3) ''fcurves'' = Inl AttributeError" by code_simp
  have m: "py_getattr stale_host (VRef 1) ''action_slot'' = Inl AttributeError" by code_simp
  from a c m exceptions_leave_only_unguarded
    [where h = stale_host and anim_data = "VRef 1" and e = HostError and ensure = False]
  have 1: "py_getattr stale_host (VRef 1) ''action'' = Inl HostError"
    by (auto simp del: py_getattr.simps)
  from e l exceptions_leave_only_unguarded
    [where h = locked_host and action = "VRef 3" and e = HostError]
  have 2: "snd (layered_fcurves locked_host (VRef 3)) = Some HostError"
    by (auto simp del: py_getattr.simps)
  from exceptions_leave_only_unguarded
    [where h = remove_host and fcurves = "VRef 33" and fcurve = "VRef 40" and e = HostError]
  have 3: "fst (remove_fcurve_from_collection remove_host (VRef 33) (VRef 40)) \<noteq> Inl HostError"
    by simp
  have 4: "\<exists>b. fst (remove_fcurve_from_collection remove_host (VRef 33) (VRef 40)) = Inr b"
    by (rule remove_fcurve_from_collection_returns)
  from a b c d e f g i j k 1 2 4 show ?thesis by simp
qed

text \<open>
  C5, as the claim states it, fails in \<^verbatim>\<open>xplane_anim_compat.py\<close>: a truthy object without
  the attribute \<^verbatim>\<open>action\<close> makes \<^verbatim>\<open>get_action_channelbag\<close> raise \<open>AttributeError\<close>; a
  group collection whose \<^verbatim>\<open>new\<close> fails inside the host makes \<^verbatim>\<open>ensure_action_group\<close>
  raise; a layer collection whose iteration fails makes \<^verbatim>\<open>iter_action_fcurves\<close> raise.
\<close>

theorem exceptions_leave_counterexample:
  "get_action_channelbag legacy_host (VRef 10) False = (Inl AttributeError, legacy_host)
   \<and> ensure_action_group locked_host (VRef 1) ''Location'' = (Inl HostError, locked_host)
   \<and> iter_action_fcurves locked_host (VRef 3) = ([], Some HostError)"
  by code_simp

section \<open>The order of the probes of \<^verbatim>\<open>get_action_channelbag\<close>\<close>

lemma ensure_helper_frame:
  "action_ensure_channelbag_for_slot h a s ens = (r, h') \<Longrightarrow> h' = h \<or> (ens \<and> ensure_kw h)"
  by (auto simp: action_ensure_channelbag_for_slot_def Let_def
      split: option.splits sum.splits val.splits if_splits)

lemma ensure_or_get_bak_raises:
  "ensure_or_get_bak h a s ens = (Inl e, h') \<Longrightarrow> h' = h"
  by (auto simp: ensure_or_get_bak_def split: sum.splits prod.splits
      dest: ensure_helper_raises)

lemma ensure_or_get_bak_frame:
  "ensure_or_get_bak h a s ens = (r, h') \<Longrightarrow>
     h' = h \<or> (ens \<and> has_ensure_helper h \<and> ensure_kw h)"
  by (auto simp: ensure_or_get_bak_def import_ensure_helper_def
      split: sum.splits prod.splits if_splits dest: ensure_helper_frame)

lemma slot_channelbag_bak_frame:
  "slot_channelbag_bak h ad a ens = (r, h') \<Longrightarrow>
     h' = h \<or> (ens \<and> has_ensure_helper h \<and> ensure_kw h)"
  by (auto simp: slot_channelbag_bak_def split: sum.splits prod.splits if_splits
      dest: ensure_or_get_bak_frame)

lemma get_action_channelbag_frame:
  "get_action_channelbag h ad ens = (r, h') \<Longrightarrow>
     h' = h \<or> (ens \<and> has_ensure_helper h \<and> ensure_kw h)"
  by (auto simp: get_action_channelbag_def import_ensure_helper_def
      split: sum.splits prod.splits if_splits dest: ensure_helper_frame)

lemma get_action_channelbag_bak_frame:
  "get_action_channelbag_bak h ad ens = (r, h') \<Longrightarrow>
     h' = h \<or> (ens \<and> has_ensure_helper h \<and> ensure_kw h)"
  by (auto simp: get_action_channelbag_bak_def
      split: sum.splits prod.splits if_splits option.splits dest: slot_channelbag_bak_frame)

lemma get_action_channelbag_legacy:
  assumes "is_true h ad" "py_getattr h ad ''action'' = Inr a" "is_true h a"
    and "exposes h a ''groups''"
  shows "get_action_channelbag h ad ens = (Inr a, h)"
  using assms
  by (auto simp: get_action_channelbag_def py_hasattr_def exposes_def split: sum.splits)

lemma get_action_channelbag_slotted:
  assumes "is_true h ad" "py_getattr h ad ''action'' = Inr a" "is_true h a"
    and "py_getattr h a ''groups'' = Inl AttributeError"
    and "has_anim_utils h" "has_ensure_helper h"
    and "py_getattr h ad ''action_slot'' = Inr slot"
  shows "get_action_channelbag h ad ens =
     (case action_ensure_channelbag_for_slot h a slot ens of
        (Inr cb, h') \<Rightarrow> (Inr cb, h')
      | (Inl e, h') \<Rightarrow> (Inr VNone, h))"
  using assms
  by (auto simp: get_action_channelbag_def py_hasattr_def import_ensure_helper_def
      split: sum.splits prod.splits dest: ensure_helper_raises)

lemma get_action_channelbag_neither:
  assumes "is_true h ad" "py_getattr h ad ''action'' = Inr a" "is_true h a"
    and "py_getattr h a ''groups'' = Inl AttributeError"
    and "\<not> (has_anim_utils h \<and> has_ensure_helper h)
         \<or> (\<exists>e. py_getattr h ad ''action_slot'' = Inl e)"
  shows "get_action_channelbag h ad ens = (Inr VNone, h)"
  using assms
  by (auto simp: get_action_channelbag_def py_hasattr_def import_ensure_helper_def
      split: sum.splits prod.splits)

lemma get_action_channelbag_bak_slotted:
  assumes "is_true h ad" "py_getattr h ad ''action'' = Inr a" "is_true h a"
    and "has_anim_utils h" "pick_slot_bak h ad a = Inr slot" "slot \<noteq> VNone"
    and "ensure_or_get_bak h a slot ens = (Inr cb, h')"
  shows "get_action_channelbag_bak h ad ens = (Inr cb, h')"
  using assms
  by (auto simp: get_action_channelbag_bak_def slot_channelbag_bak_def import_anim_utils_def)

lemma get_action_channelbag_bak_legacy:
  assumes "is_true h ad" "py_getattr h ad ''action'' = Inr a" "is_true h a"
    and "\<not> has_anim_utils h \<or> pick_slot_bak h ad a = Inr VNone
         \<or> (\<exists>e. pick_slot_bak h ad a = Inl e)
         \<or> (\<exists>slot e. pick_slot_bak h ad a = Inr slot
                \<and> fst (ensure_or_get_bak h a slot ens) = Inl e)"
    and "exposes h a ''groups'' \<or> py_getattr h a ''groups'' = Inl AttributeError"
  shows "get_action_channelbag_bak h ad ens = (Inr (if exposes h a ''groups'' then a else VNone), h)"
proof -
  have "\<exists>r. slot_channelbag_bak h ad a ens = (r, h) \<and> r \<noteq> Inr (Some cb)" for cb
    using assms(4)
    by (auto simp: slot_channelbag_bak_def import_anim_utils_def
        split: sum.splits prod.splits dest: ensure_or_get_bak_raises)
  then obtain r where r: "slot_channelbag_bak h ad a ens = (r, h)" "\<And>cb. r \<noteq> Inr (Some cb)"
    by (metis prod.inject)
  with assms(1-3,5) show ?thesis
    by (auto simp: get_action_channelbag_bak_def py_hasattr_def exposes_def
        split: sum.splits option.splits)
qed

lemma pick_slot_bak_active:
  "py_getattr h ad ''action_slot'' = Inr slot \<Longrightarrow> slot \<noteq> VNone \<Longrightarrow>
     pick_slot_bak h ad a = Inr slot"
  by (simp add: pick_slot_bak_def py_getattr_default_def)

lemma pick_slot_bak_first:
  "py_getattr_default h ad ''action_slot'' = Inr VNone \<Longrightarrow>
   py_getattr h a ''slots'' = Inr c \<Longrightarrow>
     pick_slot_bak h ad a = (if is_true h c then index0 h c else Inr VNone)"
  by (simp add: pick_slot_bak_def py_getattr_default_def)

text \<open>
  C3, as the code has it. For a truthy animation data with a truthy action:
  \<^verbatim>\<open>get_action_channelbag\<close> of \<^verbatim>\<open>xplane_anim_compat.py\<close> returns the action when it
  exposes \<^verbatim>\<open>groups\<close>; else it hands the active slot as it is (also \<open>None\<close>; the slots of
  the action are never read) to the ensure helper and returns its bag, or \<open>None\<close> when
  the helper is missing, the slot cannot be read or the helper raises. The function of
  \<^verbatim>\<open>xplane_anim_compat_bak.py\<close> resolves a slot first, the active one or else the first
  of the action, with the ensure helper or else the get helper, and returns that bag
  even when the action exposes \<^verbatim>\<open>groups\<close>; only when no bag results does it return the
  action when it exposes \<^verbatim>\<open>groups\<close>, else \<open>None\<close>. In both, the host changes only
  when \<open>ensure\<close> is set and the host has the ensure helper.
\<close>

theorem channelbag_probe_order:
  assumes "is_true h ad" and "py_getattr h ad ''action'' = Inr a" and "is_true h a"
  shows "(exposes h a ''groups'' \<longrightarrow> get_action_channelbag h ad ens = (Inr a, h))
   \<and> (py_getattr h a ''groups'' = Inl AttributeError \<and> has_anim_utils h
        \<and> has_ensure_helper h \<and> py_getattr h ad ''action_slot'' = Inr slot \<longrightarrow>
        get_action_channelbag h ad ens =
          (case action_ensure_channelbag_for_slot h a slot ens of
             (Inr cb, h') \<Rightarrow> (Inr cb, h')
           | (Inl e, h') \<Rightarrow> (Inr VNone, h)))
   \<and> (py_getattr h a ''groups'' = Inl AttributeError
        \<and> (\<not> (has_anim_utils h \<and> has_ensure_helper h)
           \<or> (\<exists>e. py_getattr h ad ''action_slot'' = Inl e)) \<longrightarrow>
        get_action_channelbag h ad ens = (Inr VNone, h))
   \<and> (has_anim_utils h \<and> pick_slot_bak h ad a = Inr slot \<and> slot \<noteq> VNone
        \<and> ensure_or_get_bak h a slot ens = (Inr cb, h1) \<longrightarrow>
        get_action_channelbag_bak h ad ens = (Inr cb, h1))
   \<and> ((\<not> has_anim_utils h \<or> pick_slot_bak h ad a = Inr VNone
          \<or> (\<exists>e. pick_slot_bak h ad a = Inl e)
          \<or> (\<exists>s e. pick_slot_bak h ad a = Inr s \<and> fst (ensure_or_get_bak h a s ens) = Inl e))
        \<and> (exposes h a ''groups'' \<or> py_getattr h a ''groups'' = Inl AttributeError) \<longrightarrow>
        get_action_channelbag_bak h ad ens
          = (Inr (if exposes h a ''groups'' then a else VNone), h))
   \<and> (py_getattr h ad ''action_slot'' = Inr slot \<and> slot \<noteq> VNone \<longrightarrow>
        pick_slot_bak h ad a = Inr slot)
   \<and> (py_getattr_default h ad ''action_slot'' = Inr VNone
        \<and> py_getattr h a ''slots'' = Inr c \<longrightarrow>
        pick_slot_bak h ad a = (if is_true h c then index0 h c else Inr VNone))
   \<and> snd (get_action_channelbag h ad False) = h
   \<and> snd (get_action_channelbag_bak h ad False) = h
   \<and> (snd (get_action_channelbag h ad ens) \<noteq> h
        \<or> snd (get_action_channelbag_bak h ad ens) \<noteq> h \<longrightarrow>
        ens \<and> has_ensure_helper h \<and> ensure_kw h)"
proof (intro conjI impI)
  assume "exposes h a ''groups''"
  with assms show "get_action_channelbag h ad ens = (Inr a, h)"
    by (rule get_action_channelbag_legacy)
next
  assume "py_getattr h a ''groups'' = Inl AttributeError \<and> has_anim_utils h
        \<and> has_ensure_helper h \<and> py_getattr h ad ''action_slot'' = Inr slot"
  with assms show "get_action_channelbag h ad ens =
          (case action_ensure_channelbag_for_slot h a slot ens of
             (Inr cb, h') \<Rightarrow> (Inr cb, h')
           | (Inl e, h') \<Rightarrow> (Inr VNone, h))"
    by (simp add: get_action_channelbag_slotted)
next
  assume "py_getattr h a ''groups'' = Inl AttributeError
        \<and> (\<not> (has_anim_utils h \<and> has_ensure_helper h)
           \<or> (\<exists>e. py_getattr h ad ''action_slot'' = Inl e))"
  with assms show "get_action_channelbag h ad ens = (Inr VNone, h)"
    by (simp add: get_action_channelbag_neither)
next
  assume "has_anim_utils h \<and> pick_slot_bak h ad a = Inr slot \<and> slot \<noteq> VNone
        \<and> ensure_or_get_bak h a slot ens = (Inr cb, h1)"
  with assms show "get_action_channelbag_bak h ad ens = (Inr cb, h1)"
    by (simp add: get_action_channelbag_bak_slotted)
next
  assume "(\<not> has_anim_utils h \<or> pick_slot_bak h ad a = Inr VNone
          \<or> (\<exists>e. pick_slot_bak h ad a = Inl e)
          \<or> (\<exists>s e. pick_slot_bak h ad a = Inr s \<and> fst (ensure_or_get_bak h a s ens) = Inl e))
        \<and> (exposes h a ''groups'' \<or> py_getattr h a ''groups'' = Inl AttributeError)"
  with assms show "get_action_channelbag_bak h ad ens
          = (Inr (if exposes h a ''groups'' then a else VNone), h)"
    by (intro get_action_channelbag_bak_legacy) simp_all
next
  assume "py_getattr h ad ''action_slot'' = Inr slot \<and> slot \<noteq> VNone"
  then show "pick_slot_bak h ad a = Inr slot" by (simp add: pick_slot_bak_active)
next
  assume "py_getattr_default h ad ''action_slot'' = Inr VNone
        \<and> py_getattr h a ''slots'' = Inr c"
  then show "pick_slot_bak h ad a = (if is_true h c then index0 h c else Inr VNone)"
    by (simp add: pick_slot_bak_first)
next
  show "snd (get_action_channelbag h ad False) = h"
    using get_action_channelbag_frame [of h ad False] by (metis prod.collapse)
next
  show "snd (get_action_channelbag_bak h ad False) = h"
    using get_action_channelbag_bak_frame [of h ad False] by (metis prod.collapse)
next
  assume "snd (get_action_channelbag h ad ens) \<noteq> h
        \<or> snd (get_action_channelbag_bak h ad ens) \<noteq> h"
  then have "ens \<and> has_ensure_helper h \<and> ensure_kw h"
    using get_action_channelbag_frame [of h ad ens] get_action_channelbag_bak_frame [of h ad ens]
    by (metis prod.collapse)
  then show ens and "has_ensure_helper h" and "ensure_kw h" by simp_all
qed

theorem channelbag_probe_order_witness:
  "is_true proxy_host (VRef 1) \<and> py_getattr proxy_host (VRef 1) ''action'' = Inr (VRef 2)
   \<and> is_true proxy_host (VRef 2) \<and> exposes proxy_host (VRef 2) ''groups''
   \<and> get_action_channelbag proxy_host (VRef 1) False = (Inr (VRef 2), proxy_host)
   \<and> pick_slot_bak proxy_host (VRef 1) (VRef 2) = Inr (VRef 5)
   \<and> get_action_channelbag_bak proxy_host (VRef 1) False = (Inr (VRef 14), proxy_host)
   \<and> py_getattr unassigned_host (VRef 1) ''action_slot'' = Inr VNone
   \<and> get_action_channelbag unassigned_host (VRef 1) False = (Inr VNone, unassigned_host)
   \<and> pick_slot_bak unassigned_host (VRef 1) (VRef 2) = Inr (VRef 5)
   \<and> get_action_channelbag_bak unassigned_host (VRef 1) False
        = (Inr (VRef 14), unassigned_host)
   \<and> get_action_channelbag_bak legacy_host (VRef 1) True = (Inr (VRef 2), legacy_host)
   \<and> get_action_channelbag layered_host (VRef 1) False = (Inr VNone, layered_host)
   \<and> snd (get_action_channelbag bagless_host (VRef 1) False) = bagless_host
   \<and> fst (get_action_channelbag bagless_host (VRef 1) True) = Inr (VRef 7)
   \<and> snd (get_action_channelbag bagless_host (VRef 1) True) \<noteq> bagless_host
   \<and> has_ensure_helper bagless_host \<and> ensure_kw bagless_host"
proof -
  have p1: "is_true proxy_host (VRef 1)" by code_simp
  have p2: "py_getattr proxy_host (VRef 1) ''action'' = Inr (VRef 2)" by code_simp
  have p3: "is_true proxy_host (VRef 2)" by code_simp
  have p4: "exposes proxy_host (VRef 2) ''groups''" by code_simp
  have p5: "has_anim_utils proxy_host" by code_simp
  have p6: "py_getattr proxy_host (VRef 1) ''action_slot'' = Inr (VRef 5)" by code_simp
  have p7: "ensure_or_get_bak proxy_host (VRef 2) (VRef 5) False = (Inr (VRef 14), proxy_host)"
    by code_simp
  note p = channelbag_probe_order [OF p1 p2 p3, of False "VRef 5" "VRef 14" proxy_host]
  from p p4 have P1: "get_action_channelbag proxy_host (VRef 1) False = (Inr (VRef 2), proxy_host)"
    by blast
  from p p6 have P2: "pick_slot_bak proxy_host (VRef 1) (VRef 2) = Inr (VRef 5)"
    by blast
  from p p5 P2 p7
  have P3: "get_action_channelbag_bak proxy_host (VRef 1) False = (Inr (VRef 14), proxy_host)"
    by blast
  have u1: "is_true unassigned_host (VRef 1)" by code_simp
  have u2: "py_getattr unassigned_host (VRef 1) ''action'' = Inr (VRef 2)" by code_simp
  have u3: "is_true unassigned_host (VRef 2)" by code_simp
  have u4: "py_getattr unassigned_host (VRef 2) ''groups'' = Inl AttributeError" by code_simp
  have u5: "has_anim_utils unassigned_host \<and> has_ensure_helper unassigned_host" by code_simp
  have u6: "py_getattr unassigned_host (VRef 1) ''action_slot'' = Inr VNone" by code_simp
  have u7: "action_ensure_channelbag_for_slot unassigned_host (VRef 2) VNone False
              = (Inr VNone, unassigned_host)" by code_simp
  have u8: "py_getattr_default unassigned_host (VRef 1) ''action_slot'' = Inr VNone"
    by code_simp
  have u9: "py_getattr unassigned_host (VRef 2) ''slots'' = Inr (VRef 6)" by code_simp
  have u10: "is_true unassigned_host (VRef 6)" by code_simp
  have u11: "index0 unassigned_host (VRef 6) = Inr (VRef 5)" by code_simp
  have u12: "ensure_or_get_bak unassigned_host (VRef 2) (VRef 5) False
               = (Inr (VRef 14), unassigned_host)" by code_simp
  note u = channelbag_probe_order [OF u1 u2 u3, of False VNone _ _ "VRef 6"]
  from u [of "VRef 14" unassigned_host] u4 u5 u6 u7
  have U1: "get_action_channelbag unassigned_host (VRef 1) False = (Inr VNone, unassigned_host)"
    by simp
  from u [of "VRef 14" unassigned_host] u8 u9 u10 u11
  have U2: "pick_slot_bak unassigned_host (VRef 1) (VRef 2) = Inr (VRef 5)"
    by simp
  note u' = channelbag_probe_order [OF u1 u2 u3, of False "VRef 5" "VRef 14" unassigned_host]
  from u' u5 U2 u12
  have U3: "get_action_channelbag_bak unassigned_host (VRef 1) False
              = (Inr (VRef 14), unassigned_host)"
    by blast
  have l1: "is_true legacy_host (VRef 1)" by code_simp
  have l2: "py_getattr legacy_host (VRef 1) ''action'' = Inr (VRef 2)" by code_simp
  have l3: "is_true legacy_host (VRef 2)" by code_simp
  have l4: "exposes legacy_host (VRef 2) ''groups''" by code_simp
  have l5: "\<not> has_anim_utils legacy_host" by code_simp
  from channelbag_probe_order [OF l1 l2 l3, of True] l4 l5
  have L: "get_action_channelbag_bak legacy_host (VRef 1) True = (Inr (VRef 2), legacy_host)"
    by simp
  have b1: "is_true bagless_host (VRef 1)" by code_simp
  have b2: "py_getattr bagless_host (VRef 1) ''action'' = Inr (VRef 2)" by code_simp
  have b3: "is_true bagless_host (VRef 2)" by code_simp
  have b4: "fst (get_action_channelbag bagless_host (VRef 1) True) = Inr (VRef 7)"
    by code_simp
  have b5: "snd (get_action_channelbag bagless_host (VRef 1) True) \<noteq> bagless_host"
    by code_simp
  from channelbag_probe_order [OF b1 b2 b3, of True] b5
  have B1: "has_ensure_helper bagless_host \<and> ensure_kw bagless_host"
    and B2: "snd (get_action_channelbag bagless_host (VRef 1) False) = bagless_host"
    by blast+
  have n1: "is_true layered_host (VRef 1)" by code_simp
  have n2: "py_getattr layered_host (VRef 1) ''action'' = Inr (VRef 2)" by code_simp
  have n3: "is_true layered_host (VRef 2)" by code_simp
  have n4: "py_getattr layered_host (VRef 2) ''groups'' = Inl AttributeError" by code_simp
  have n5: "\<not> has_anim_utils layered_host" by code_simp
  from channelbag_probe_order [OF n1 n2 n3, of False] n4 n5
  have n: "get_action_channelbag layered_host (VRef 1) False = (Inr VNone, layered_host)"
    by simp
  from p1 p2 p3 p4 P1 P2 P3 u6 U1 U2 U3 L n B1 B2 b4 b5 show ?thesis by simp
qed

text \<open>
  C3, as the claim states it, fails in both modules. In \<^verbatim>\<open>xplane_anim_compat.py\<close> no
  first slot is taken when none is active: the action has no \<^verbatim>\<open>groups\<close>, the only
  slot 5 of the action resolves to the bag 14, and the function returns \<open>None\<close>. In
  \<^verbatim>\<open>xplane_anim_compat_bak.py\<close> the slotted shape is probed before the legacy one: the
  action exposes \<^verbatim>\<open>groups\<close> and the function returns the bag 14 of the active slot,
  not the action 2.
\<close>

theorem channelbag_probe_order_counterexample:
  "py_getattr unassigned_host (VRef 1) ''action'' = Inr (VRef 2)
   \<and> py_getattr unassigned_host (VRef 1) ''action_slot'' = Inr VNone
   \<and> elems unassigned_host (VRef 2) ''slots'' = [VRef 5]
   \<and> helper_exposed unassigned_host
   \<and> action_get_channelbag_for_slot unassigned_host (VRef 2) (VRef 5) = Inr (VRef 14)
   \<and> get_action_channelbag unassigned_host (VRef 1) False = (Inr VNone, unassigned_host)
   \<and> py_getattr proxy_host (VRef 1) ''action'' = Inr (VRef 2)
   \<and> exposes proxy_host (VRef 2) ''groups''
   \<and> get_action_channelbag_bak proxy_host (VRef 1) False = (Inr (VRef 14), proxy_host)"
  by code_simp

section \<open>Looking a group up, or creating it\<close>

lemma fold_max_ge: "(k::nat) \<in> set ks \<Longrightarrow> k \<le> fold max ks m"
proof (induction ks arbitrary: m)
  case Nil
  then show ?case by simp
next
  case (Cons x xs)
  have mono: "m \<le> fold max xs m" for m :: nat
    by (induction xs arbitrary: m) (auto intro: order_trans [OF max.cobounded2])
  from Cons show ?case
    by (auto intro: order_trans [OF max.cobounded1 mono])
qed

lemma fresh_unused: "map_of (heap h) (fresh h) = None"
proof (rule ccontr)
  assume "map_of (heap h) (fresh h) \<noteq> None"
  then obtain ob where "(fresh h, ob) \<in> set (heap h)"
    by (auto dest: map_of_SomeD)
  then have "fresh h \<in> set (map fst (heap h))" by force
  from fold_max_ge [OF this, of 0] show False by (simp add: fresh_def)
qed

lemma getattr_in_heap:
  "py_getattr h (VRef r) a = Inr y \<Longrightarrow> map_of (heap h) r \<noteq> None"
  by (auto simp: deref_def plain_obj_def split: option.splits)

lemma meth_in_heap:
  "meth_exn h (VRef r) m = None \<Longrightarrow> map_of (heap h) r \<noteq> None"
  by (auto simp: deref_def plain_obj_def split: option.splits)

text \<open>What a successful \<^verbatim>\<open>new\<close> leaves as it was.\<close>

lemma call_new_deref:
  assumes "call_new m h (VRef r) name = (Inr v, h1)"
  shows "v = VRef (fresh h)"
    and "deref h1 (fresh h) = new_group h"
    and "deref h1 r = (deref h r)\<lparr>truthy := True, items := items (deref h r) @ [VRef (fresh h)],
                                  keyed := keyed (deref h r) @ [(name, fresh h)]\<rparr>"
    and "\<And>x. x \<noteq> r \<Longrightarrow> x \<noteq> fresh h \<Longrightarrow> deref h1 x = deref h x"
    and "r \<noteq> fresh h"
    and "new_group h1 = new_group h"
proof -
  from assms have ok: "meth_exn h (VRef r) m = None"
    by (auto simp: call_new_def split: option.splits)
  from meth_in_heap [OF ok] fresh_unused [of h] show ne: "r \<noteq> fresh h" by auto
  from assms ok have h1: "h1 = h\<lparr>heap := (fresh h, new_group h)
      # (r, (deref h r)\<lparr>truthy := True, items := items (deref h r) @ [VRef (fresh h)],
                         keyed := keyed (deref h r) @ [(name, fresh h)]\<rparr>) # heap h\<rparr>"
    and v: "v = VRef (fresh h)"
    by (auto simp: call_new_def Let_def)
  from v show "v = VRef (fresh h)" .
  from h1 show "deref h1 (fresh h) = new_group h" by (simp add: deref_def)
  from h1 ne show "deref h1 r = (deref h r)\<lparr>truthy := True,
      items := items (deref h r) @ [VRef (fresh h)],
      keyed := keyed (deref h r) @ [(name, fresh h)]\<rparr>"
    by (simp add: deref_def)
  from h1 show "\<And>x. x \<noteq> r \<Longrightarrow> x \<noteq> fresh h \<Longrightarrow> deref h1 x = deref h x"
    by (simp add: deref_def)
  from h1 show "new_group h1 = new_group h" by simp
qed

lemma call_new_attrs:
  assumes new: "call_new m h (VRef r) name = (Inr v, h1)"
    and x: "py_getattr h x b = Inr y"
  shows "py_getattr h1 x a = py_getattr h x a" and "is_true h x \<Longrightarrow> is_true h1 x"
proof -
  from x obtain rx where rx: "x = VRef rx" by (cases x) auto
  from x have "map_of (heap h) rx \<noteq> None" unfolding rx by (rule getattr_in_heap)
  with fresh_unused [of h] have nf: "rx \<noteq> fresh h" by auto
  have d: "attrs (deref h1 rx) = attrs (deref h rx)
         \<and> (truthy (deref h rx) \<longrightarrow> truthy (deref h1 rx))"
  proof (cases "rx = r")
    case True
    with call_new_deref(3) [OF new] show ?thesis by simp
  next
    case False
    with call_new_deref(4) [OF new False nf] show ?thesis by simp
  qed
  from d rx show "py_getattr h1 x a = py_getattr h x a" by simp
  from d rx show "is_true h x \<Longrightarrow> is_true h1 x" by simp
qed

lemma call_new_flags:
  assumes "call_new m h g name = (r, h1)"
  shows "has_anim_utils h1 = has_anim_utils h"
  using assms by (auto simp: call_new_def Let_def split: option.splits val.splits)

lemma call_get_none:
  assumes "call_get h (VRef r) name = Inr VNone"
  shows "meth_exn h (VRef r) Get = None" and "map_of (keyed (deref h r)) name = None"
  using assms by (auto simp: call_get_def split: option.splits)

lemma call_get_after_new:
  assumes new: "call_new m h (VRef r) name = (Inr v, h1)"
    and get: "call_get h (VRef r) name = Inr VNone"
  shows "call_get h1 (VRef r) name = Inr v"
proof -
  note d = call_new_deref [OF new]
  from call_get_none [OF get] d(1,3) show ?thesis
    by (simp add: call_get_def map_add_def)
qed

lemma get_or_new_again:
  assumes g: "py_getattr h container ''groups'' = Inr g"
    and first: "get_or_new New h container name = (Inr v, h1)"
    and found: "\<And>x. call_get h g name = Inr x \<Longrightarrow> x = VNone \<or> is_true h x"
    and grp: "truthy (new_group h)"
  shows "get_or_new New h1 container name = (Inr v, h1) \<and> is_true h1 v
       \<and> (\<forall>x b y a. py_getattr h x b = Inr y \<longrightarrow>
             py_getattr h1 x a = py_getattr h x a \<and> (is_true h x \<longrightarrow> is_true h1 x))
       \<and> has_anim_utils h1 = has_anim_utils h"
proof -
  from g first obtain x where x: "call_get h g name = Inr x"
    by (auto simp: get_or_new_def split: sum.splits)
  show ?thesis
  proof (cases "is_true h x")
    case True
    with g first x have "h1 = h" "v = x" by (auto simp: get_or_new_def)
    with g first True show ?thesis by simp
  next
    case False
    with found [OF x] have xn: "x = VNone" by simp
    with g first x have new: "call_new New h g name = (Inr v, h1)"
      by (simp add: get_or_new_def)
    then obtain r where r: "g = VRef r"
      by (cases g) (auto simp: call_new_def)
    note d = call_new_deref [OF new [unfolded r]]
    note a = call_new_attrs [OF new [unfolded r]]
    from a(1) [OF g] g have g1: "py_getattr h1 container ''groups'' = Inr g" by simp
    from call_get_after_new [OF new [unfolded r]] x xn r
    have get1: "call_get h1 g name = Inr v" by simp
    from d(1,2) grp have tv: "is_true h1 v" by simp
    from g1 get1 tv have "get_or_new New h1 container name = (Inr v, h1)"
      by (simp add: get_or_new_def)
    with tv a call_new_flags [OF new] show ?thesis by blast
  qed
qed

lemma ensure_action_group_legacy:
  assumes "is_true h ad" and "py_getattr h ad ''action'' = Inr a" and "is_true h a"
    and "py_getattr h a ''groups'' = Inr g"
  shows "ensure_action_group h ad name = get_or_new New h a name"
  using assms
  by (simp add: ensure_action_group_def get_action_channelbag_def py_hasattr_def)

lemma get_action_channelbag_bak_slotless:
  assumes "is_true h ad" and "py_getattr h ad ''action'' = Inr a" and "is_true h a"
    and "py_getattr h a ''groups'' = Inr g"
    and "py_getattr h ad ''action_slot'' = Inl AttributeError"
    and "py_getattr h a ''slots'' = Inl AttributeError"
  shows "get_action_channelbag_bak h ad ens = (Inr a, h)"
  using assms
  by (simp add: get_action_channelbag_bak_def slot_channelbag_bak_def pick_slot_bak_def
      py_getattr_default_def py_hasattr_def import_anim_utils_def)

lemma ensure_action_group_bak_legacy:
  assumes "is_true h ad" and "py_getattr h ad ''action'' = Inr a" and "is_true h a"
    and "py_getattr h a ''groups'' = Inr g"
    and "py_getattr h ad ''action_slot'' = Inl AttributeError"
    and "py_getattr h a ''slots'' = Inl AttributeError"
  shows "ensure_action_group_bak h ad name = get_or_new New h a name"
  using assms get_action_channelbag_bak_slotless [OF assms]
  by (simp add: ensure_action_group_bak_def py_hasattr_def)

lemma get_or_new_first:
  assumes g: "py_getattr h container ''groups'' = Inr g"
    and first: "get_or_new New h container name = (Inr v, h1)"
    and found: "\<And>x. call_get h g name = Inr x \<Longrightarrow> x = VNone \<or> is_true h x"
  shows "(call_get h g name = Inr v \<and> is_true h v \<and> h1 = h)
       \<or> (call_get h g name = Inr VNone \<and> v = VRef (fresh h)
          \<and> (\<exists>r. g = VRef r \<and> items (deref h1 r) = items (deref h r) @ [v]))"
proof -
  from g first obtain x where x: "call_get h g name = Inr x"
    by (auto simp: get_or_new_def split: sum.splits)
  show ?thesis
  proof (cases "is_true h x")
    case True
    with g first x show ?thesis by (auto simp: get_or_new_def)
  next
    case False
    with found [OF x] have xn: "x = VNone" by simp
    with g first x have new: "call_new New h g name = (Inr v, h1)"
      by (simp add: get_or_new_def)
    then obtain r where r: "g = VRef r"
      by (cases g) (auto simp: call_new_def)
    from call_new_deref(1,3) [OF new [unfolded r]] x xn r show ?thesis by simp
  qed
qed

text \<open>
  C8. On a legacy container (the action of the animation data exposes \<^verbatim>\<open>groups\<close>; for
  \<^verbatim>\<open>xplane_anim_compat_bak.py\<close>, the animation data has no \<^verbatim>\<open>action_slot\<close> and the
  action no \<^verbatim>\<open>slots\<close>), in a host whose groups are truthy objects, a call of
  \<^verbatim>\<open>ensure_action_group\<close> that returns the group \<open>v\<close> either found it, and changed
  nothing, or found none under the name and added exactly \<open>v\<close> to the group collection;
  a further call with the same name returns the same \<open>v\<close> and leaves the host as the
  first call left it, so that no call after the first creates a group.
\<close>

theorem ensure_action_group_idempotent:
  assumes "is_true h ad" and "py_getattr h ad ''action'' = Inr a" and "is_true h a"
    and "py_getattr h a ''groups'' = Inr g"
    and "truthy (new_group h)"
    and "\<And>x. call_get h g name = Inr x \<Longrightarrow> x = VNone \<or> is_true h x"
  shows "(ensure_action_group h ad name = (Inr v, h1) \<longrightarrow>
            ensure_action_group h1 ad name = (Inr v, h1) \<and> is_true h1 v
            \<and> ((call_get h g name = Inr v \<and> is_true h v \<and> h1 = h)
               \<or> (call_get h g name = Inr VNone \<and> v = VRef (fresh h)
                  \<and> (\<exists>r. g = VRef r \<and> items (deref h1 r) = items (deref h r) @ [v]))))
       \<and> (py_getattr h ad ''action_slot'' = Inl AttributeError
           \<and> py_getattr h a ''slots'' = Inl AttributeError
           \<and> ensure_action_group_bak h ad name = (Inr v, h1) \<longrightarrow>
            ensure_action_group_bak h1 ad name = (Inr v, h1) \<and> is_true h1 v
            \<and> ((call_get h g name = Inr v \<and> is_true h v \<and> h1 = h)
               \<or> (call_get h g name = Inr VNone \<and> v = VRef (fresh h)
                  \<and> (\<exists>r. g = VRef r \<and> items (deref h1 r) = items (deref h r) @ [v]))))"
proof (intro conjI impI)
  assume first: "ensure_action_group h ad name = (Inr v, h1)"
  with ensure_action_group_legacy [OF assms(1-4)]
  have gn: "get_or_new New h a name = (Inr v, h1)" by simp
  note again = get_or_new_again [OF assms(4) gn assms(6) assms(5)]
  from again assms(1-4)
  have "is_true h1 ad" "py_getattr h1 ad ''action'' = Inr a" "is_true h1 a"
    "py_getattr h1 a ''groups'' = Inr g"
    by metis+
  from ensure_action_group_legacy [OF this] again
  show "ensure_action_group h1 ad name = (Inr v, h1)" by simp
  from again show "is_true h1 v" by simp
  from get_or_new_first [OF assms(4) gn assms(6)]
  show "(call_get h g name = Inr v \<and> is_true h v \<and> h1 = h)
      \<or> (call_get h g name = Inr VNone \<and> v = VRef (fresh h)
         \<and> (\<exists>r. g = VRef r \<and> items (deref h1 r) = items (deref h r) @ [v]))" .
next
  assume b: "py_getattr h ad ''action_slot'' = Inl AttributeError
           \<and> py_getattr h a ''slots'' = Inl AttributeError
           \<and> ensure_action_group_bak h ad name = (Inr v, h1)"
  then have s1: "py_getattr h ad ''action_slot'' = Inl AttributeError"
    and s2: "py_getattr h a ''slots'' = Inl AttributeError"
    and first: "ensure_action_group_bak h ad name = (Inr v, h1)" by simp_all
  from first ensure_action_group_bak_legacy [OF assms(1-4) s1 s2]
  have gn: "get_or_new New h a name = (Inr v, h1)" by simp
  note again = get_or_new_again [OF assms(4) gn assms(6) assms(5)]
  from again assms(1-4) s1 s2
  have "is_true h1 ad" "py_getattr h1 ad ''action'' = Inr a" "is_true h1 a"
    "py_getattr h1 a ''groups'' = Inr g"
    "py_getattr h1 ad ''action_slot'' = Inl AttributeError"
    "py_getattr h1 a ''slots'' = Inl AttributeError"
    by metis+
  from ensure_action_group_bak_legacy [OF this] again
  show "ensure_action_group_bak h1 ad name = (Inr v, h1)" by simp
  from again show "is_true h1 v" by simp
  from get_or_new_first [OF assms(4) gn assms(6)]
  show "(call_get h g name = Inr v \<and> is_true h v \<and> h1 = h)
      \<or> (call_get h g name = Inr VNone \<and> v = VRef (fresh h)
         \<and> (\<exists>r. g = VRef r \<and> items (deref h1 r) = items (deref h r) @ [v]))" .
qed

theorem ensure_action_group_idempotent_witness:
  "is_true legacy_host (VRef 1) \<and> py_getattr legacy_host (VRef 1) ''action'' = Inr (VRef 2)
   \<and> is_true legacy_host (VRef 2) \<and> py_getattr legacy_host (VRef 2) ''groups'' = Inr (VRef 4)
   \<and> truthy (new_group legacy_host)
   \<and> call_get legacy_host (VRef 4) ''Location'' = Inr VNone
   \<and> py_getattr legacy_host (VRef 1) ''action_slot'' = Inl AttributeError
   \<and> py_getattr legacy_host (VRef 2) ''slots'' = Inl AttributeError
   \<and> fst (ensure_action_group legacy_host (VRef 1) ''Location'') = Inr (VRef 12)
   \<and> ensure_action_group (snd (ensure_action_group legacy_host (VRef 1) ''Location''))
        (VRef 1) ''Location''
      = (Inr (VRef 12), snd (ensure_action_group legacy_host (VRef 1) ''Location''))
   \<and> items (deref (snd (ensure_action_group legacy_host (VRef 1) ''Location'')) 4) = [VRef 12]
   \<and> fst (ensure_action_group_bak legacy_host (VRef 1) ''Location'') = Inr (VRef 12)
   \<and> ensure_action_group_bak (snd (ensure_action_group_bak legacy_host (VRef 1) ''Location''))
        (VRef 1) ''Location''
      = (Inr (VRef 12), snd (ensure_action_group_bak legacy_host (VRef 1) ''Location''))"
proof -
  have a: "is_true legacy_host (VRef 1)" by code_simp
  have b: "py_getattr legacy_host (VRef 1) ''action'' = Inr (VRef 2)" by code_simp
  have c: "is_true legacy_host (VRef 2)" by code_simp
  have d: "py_getattr legacy_host (VRef 2) ''groups'' = Inr (VRef 4)" by code_simp
  have e: "truthy (new_group legacy_host)" by code_simp
  have f: "call_get legacy_host (VRef 4) ''Location'' = Inr VNone" by code_simp
  then have f': "\<And>x. call_get legacy_host (VRef 4) ''Location'' = Inr x
      \<Longrightarrow> x = VNone \<or> is_true legacy_host x" by simp
  have s1: "py_getattr legacy_host (VRef 1) ''action_slot'' = Inl AttributeError" by code_simp
  have s2: "py_getattr legacy_host (VRef 2) ''slots'' = Inl AttributeError" by code_simp
  have m: "fst (ensure_action_group legacy_host (VRef 1) ''Location'') = Inr (VRef 12)"
    by code_simp
  have k: "fst (ensure_action_group_bak legacy_host (VRef 1) ''Location'') = Inr (VRef 12)"
    by code_simp
  have i: "items (deref (snd (ensure_action_group legacy_host (VRef 1) ''Location'')) 4)
             = [VRef 12]"
    by code_simp
  from m have m': "ensure_action_group legacy_host (VRef 1) ''Location''
      = (Inr (VRef 12), snd (ensure_action_group legacy_host (VRef 1) ''Location''))"
    by (metis prod.collapse)
  from k have k': "ensure_action_group_bak legacy_host (VRef 1) ''Location''
      = (Inr (VRef 12), snd (ensure_action_group_bak legacy_host (VRef 1) ''Location''))"
    by (metis prod.collapse)
  note t = ensure_action_group_idempotent [OF a b c d e f', where v = "VRef 12"]
  from t [where ?h1.0 = "snd (ensure_action_group legacy_host (VRef 1) ''Location'')"] m'
  have 1: "ensure_action_group (snd (ensure_action_group legacy_host (VRef 1) ''Location''))
        (VRef 1) ''Location''
      = (Inr (VRef 12), snd (ensure_action_group legacy_host (VRef 1) ''Location''))"
    by blast
  from t [where ?h1.0 = "snd (ensure_action_group_bak legacy_host (VRef 1) ''Location'')"]
    k' s1 s2
  have 2: "ensure_action_group_bak
        (snd (ensure_action_group_bak legacy_host (VRef 1) ''Location'')) (VRef 1) ''Location''
      = (Inr (VRef 12), snd (ensure_action_group_bak legacy_host (VRef 1) ''Location''))"
    by blast
  from a b c d e f s1 s2 m k i 1 2 show ?thesis by blast
qed

end
